theory Spec2Isabelle
  imports Complex_Main
begin

section \<open>Data model\<close>

text \<open>
  The \<^verbatim>\<open>Transaction\<close> schema: \<^verbatim>\<open>title\<close>, \<^verbatim>\<open>price\<close> and \<^verbatim>\<open>dateOfSale\<close> are required,
  \<^verbatim>\<open>description\<close> and \<^verbatim>\<open>category\<close> are optional, \<^verbatim>\<open>sold\<close> defaults to false.
  A price is a binary64 number, kept as the rational number it denotes.
  Of a sale date only the calendar month is ever read (\<^verbatim>\<open>$month\<close>), so a date is kept
  as year, month and day.
\<close>

datatype date = Date int nat nat

fun dollar_month :: "date \<Rightarrow> nat" where
  "dollar_month (Date y m d) = m"

record transaction =
  title :: string
  description :: "string option"
  price :: rat
  category :: "string option"
  dateOfSale :: date
  sold :: bool

text \<open>An object of the fetched JSON array, before the schema is applied to it.\<close>

record raw_transaction =
  raw_title :: "string option"
  raw_description :: "string option"
  raw_price :: "rat option"
  raw_category :: "string option"
  raw_dateOfSale :: "date option"
  raw_sold :: "bool option"

subsection \<open>JavaScript numbers\<close>

text \<open>
  A number is NaN, an infinity or a finite value. Comparisons with NaN are false.
\<close>

datatype jsnum = NaN | Num rat | PosInf | NegInf

fun js_le :: "jsnum \<Rightarrow> jsnum \<Rightarrow> bool" where
  "js_le NaN b = False"
| "js_le a NaN = False"
| "js_le NegInf b = True"
| "js_le a PosInf = True"
| "js_le (Num a) (Num b) = (a \<le> b)"
| "js_le a b = False"

fun js_lt :: "jsnum \<Rightarrow> jsnum \<Rightarrow> bool" where
  "js_lt NaN b = False"
| "js_lt a NaN = False"
| "js_lt (Num a) (Num b) = (a < b)"
| "js_lt PosInf b = False"
| "js_lt a NegInf = False"
| "js_lt a b = True"

fun isNaN :: "jsnum \<Rightarrow> bool" where
  "isNaN NaN = True"
| "isNaN n = False"

subsection \<open>Built-in functions of the language\<close>

text \<open>
  The handlers call three built-ins on request text: the conversion of a string to a
  number (unary \<^verbatim>\<open>+\<close> and \<^verbatim>\<open>Number\<close>), \<^verbatim>\<open>parseInt(s, 10)\<close>, and
  \<^verbatim>\<open>new RegExp(s, 'i')\<close>; and they add numbers with \<^verbatim>\<open>+\<close>, the addition of
  binary64 numbers, whose result is rounded. These four are parameters of the model.
  \<^verbatim>\<open>parseInt\<close> gives NaN (\<open>None\<close>) or an integer. \<^verbatim>\<open>RegExp_i\<close> gives \<open>None\<close> when
  the constructor throws a SyntaxError, and otherwise the test "the pattern, ignoring
  case, matches somewhere in this string", which is what the store evaluates for a regular
  expression condition.
\<close>

record builtins =
  ToNumber :: "string \<Rightarrow> jsnum"
  parseInt10 :: "string \<Rightarrow> int option"
  RegExp_i :: "string \<Rightarrow> (string \<Rightarrow> bool) option"
  js_plus :: "jsnum \<Rightarrow> jsnum \<Rightarrow> jsnum"

subsection \<open>Errors, responses, requests\<close>

datatype error =
    TypeError
  | SyntaxError
  | StoreError
  | ValidationError
  | FetchError
  | Error string

record pagination =
  totalRecords :: nat
  currentPage :: "int option"
  perPage :: int
  totalPages :: int

text \<open>
  A count of the pie chart is a number, unless the category is the name of a property
  that every object inherits: then the code builds a string (see \<open>count_up\<close> below).
\<close>

datatype count_val = Number nat | Not_a_number

datatype body =
    Message string
  | Failure string error
  | Initialized string nat
  | Listing "transaction list" pagination
  | Statistics jsnum nat int
  | RangeCounts "(string \<times> nat) list"
  | CategoryCounts "(string \<times> count_val) list"
  | Combined body body body

type_synonym response = "nat \<times> body"

text \<open>
  \<^verbatim>\<open>req.query\<close>: each parameter is absent or a string.
\<close>

record query =
  month :: "string option"
  search :: "string option"
  page :: "string option"
  perPage_param :: "string option"

text \<open>
  The response object: \<^verbatim>\<open>res.status(c).json(b)\<close> sends a response. The combined view
  calls the other handlers with \<^verbatim>\<open>null\<close> for \<^verbatim>\<open>res\<close>, on which \<^verbatim>\<open>res.status\<close> throws
  a TypeError.
\<close>

datatype res = Res

definition send :: "res option \<Rightarrow> nat \<Rightarrow> body \<Rightarrow> error + response" where
  "send r code b = (case r of None \<Rightarrow> Inl TypeError | Some _ \<Rightarrow> Inr (code, b))"

section \<open>The store\<close>

text \<open>
  The collection is a list of documents. Each call to the store answers or throws (the
  store is unreachable, the connection is lost, the store refuses a document). A call
  that throws may have done part of its work, or all of it: a write in order stops at the
  first document the store refuses and keeps the documents before it, and a connection
  can fail after the store has worked. \<open>Throws k\<close> is a call that throws after the
  store has processed \<open>k\<close> documents. \<open>faults\<close> lists the answers of the calls to come;
  when the list is exhausted calls answer. \<open>calls\<close> counts the calls made.
\<close>

datatype answer = Answers | Throws nat

record world =
  docs :: "transaction list"
  faults :: "answer list"
  calls :: nat

definition store_call :: "world \<Rightarrow> answer \<times> world" where
  "store_call w =
     (case faults w of
        [] \<Rightarrow> (Answers, w\<lparr>calls := calls w + 1\<rparr>)
      | f # fs \<Rightarrow> (f, w\<lparr>faults := fs, calls := calls w + 1\<rparr>))"

definition next_call_throws :: "world \<Rightarrow> bool" where
  "next_call_throws w = (fst (store_call w) \<noteq> Answers)"

subsection \<open>Aggregation pipelines\<close>

text \<open>
  A document in a pipeline carries the \<^verbatim>\<open>month\<close> field once \<^verbatim>\<open>$addFields\<close> has added
  it; \<^verbatim>\<open>$count\<close> replaces a non-empty input by one document holding the count.
\<close>

datatype item = Doc transaction "nat option" | Count_doc nat

datatype cond =
    Title_regex "string \<Rightarrow> bool"
  | Description_regex "string \<Rightarrow> bool"
  | Price_eq "jsnum option"

datatype stage =
    AddFields_month
  | Match "jsnum option" "cond list option"
  | Skip "int option"
  | Limit int
  | Project "string list"
  | Count

text \<open>
  A regular expression condition on an absent field is false. \<^verbatim>\<open>{ price: undefined }\<close>
  is sent as \<^verbatim>\<open>{ price: null }\<close>, which holds of a document without a price; the schema
  requires a price, so it holds of none.
\<close>

fun cond_holds :: "cond \<Rightarrow> transaction \<Rightarrow> bool" where
  "cond_holds (Title_regex re) t = re (title t)"
| "cond_holds (Description_regex re) t =
     (case description t of None \<Rightarrow> False | Some d \<Rightarrow> re d)"
| "cond_holds (Price_eq None) t = False"
| "cond_holds (Price_eq (Some n)) t = (n = Num (price t))"

fun month_holds :: "jsnum option \<Rightarrow> nat option \<Rightarrow> bool" where
  "month_holds None m = True"
| "month_holds (Some n) None = False"
| "month_holds (Some n) (Some m) = (n = Num (of_nat m))"

fun or_holds :: "cond list option \<Rightarrow> transaction \<Rightarrow> bool" where
  "or_holds None t = True"
| "or_holds (Some cs) t = list_ex (\<lambda>c. cond_holds c t) cs"

fun match_item :: "jsnum option \<Rightarrow> cond list option \<Rightarrow> item \<Rightarrow> bool" where
  "match_item mo cs (Doc t m) = (month_holds mo m \<and> or_holds cs t)"
| "match_item mo cs (Count_doc n) = False"

fun add_month :: "item \<Rightarrow> item" where
  "add_month (Doc t m) = Doc t (Some (dollar_month (dateOfSale t)))"
| "add_month (Count_doc n) = Count_doc n"

fun project :: "string list \<Rightarrow> item \<Rightarrow> item" where
  "project fs (Doc t m) = Doc t (if ''month'' \<in> set fs then m else None)"
| "project fs (Count_doc n) = Count_doc n"

text \<open>
  The store rejects an empty \<^verbatim>\<open>$or\<close>, a \<^verbatim>\<open>$skip\<close> that is not a non-negative integer
  and a \<^verbatim>\<open>$limit\<close> that is not a positive integer. \<^verbatim>\<open>$project\<close> keeps the listed
  fields: the model drops the added \<^verbatim>\<open>month\<close> and keeps the document otherwise (every
  handler reads only fields it has projected).
\<close>

fun run_stage :: "stage \<Rightarrow> item list \<Rightarrow> error + item list" where
  "run_stage AddFields_month xs = Inr (map add_month xs)"
| "run_stage (Match mo (Some [])) xs = Inl StoreError"
| "run_stage (Match mo cs) xs = Inr (filter (match_item mo cs) xs)"
| "run_stage (Skip None) xs = Inl StoreError"
| "run_stage (Skip (Some k)) xs = (if k < 0 then Inl StoreError else Inr (drop (nat k) xs))"
| "run_stage (Limit n) xs = (if n \<le> 0 then Inl StoreError else Inr (take (nat n) xs))"
| "run_stage (Project fs) xs = Inr (map (project fs) xs)"
| "run_stage Count xs = Inr (if xs = [] then [] else [Count_doc (length xs)])"

fun run_pipeline :: "stage list \<Rightarrow> item list \<Rightarrow> error + item list" where
  "run_pipeline [] xs = Inr xs"
| "run_pipeline (s # ss) xs =
     (case run_stage s xs of Inl e \<Rightarrow> Inl e | Inr ys \<Rightarrow> run_pipeline ss ys)"

definition aggregate :: "stage list \<Rightarrow> world \<Rightarrow> (error + item list) \<times> world" where
  "aggregate pipeline w =
     (case store_call w of
        (Answers, w') \<Rightarrow> (run_pipeline pipeline (map (\<lambda>t. Doc t None) (docs w')), w')
      | (Throws k, w') \<Rightarrow> (Inl StoreError, w'))"

fun documents :: "item list \<Rightarrow> transaction list" where
  "documents [] = []"
| "documents (Doc t m # xs) = t # documents xs"
| "documents (Count_doc n # xs) = documents xs"

section \<open>The handlers\<close>

text \<open>
  A handler is an asynchronous function whose body is one \<^verbatim>\<open>try\<close> block. Its result is
  \<open>Inr r\<close> when it has sent the response \<open>r\<close> (the promise is then fulfilled, with no
  data), and \<open>Inl e\<close> when the promise is rejected with \<open>e\<close> and nothing was sent.
  The \<^verbatim>\<open>catch\<close> block sends status 500 with the handler's message; on \<^verbatim>\<open>null\<close> that
  throws in turn.
\<close>

type_synonym outcome = "(error + response) \<times> world"

definition catch_500 :: "string \<Rightarrow> res option \<Rightarrow> outcome \<Rightarrow> outcome" where
  "catch_500 msg r out =
     (case fst out of
        Inl e \<Rightarrow> (send r 500 (Failure msg e), snd out)
      | Inr x \<Rightarrow> out)"

text \<open>\<^verbatim>\<open>!month || +month <= 0 || +month > 12\<close>\<close>

definition month_rejected :: "builtins \<Rightarrow> string option \<Rightarrow> bool" where
  "month_rejected js mo =
     (case mo of
        None \<Rightarrow> True
      | Some m \<Rightarrow> m = [] \<or> js_le (ToNumber js m) (Num 0) \<or> js_lt (Num 12) (ToNumber js m))"

text \<open>\<^verbatim>\<open>+month\<close>, read after the check, where \<^verbatim>\<open>month\<close> is a non-empty string.\<close>

definition plus_month :: "builtins \<Rightarrow> string option \<Rightarrow> jsnum" where
  "plus_month js mo = (case mo of None \<Rightarrow> NaN | Some m \<Rightarrow> ToNumber js m)"

definition month_pipeline :: "jsnum \<Rightarrow> string list \<Rightarrow> stage list" where
  "month_pipeline n fs = [AddFields_month, Match (Some n) None, Project fs]"

definition getStatistics :: "builtins \<Rightarrow> query \<Rightarrow> res option \<Rightarrow> world \<Rightarrow> outcome" where
  "getStatistics js q r w =
     catch_500 ''Failed to fetch statistics'' r
       (if month_rejected js (month q)
        then (send r 400 (Message ''Valid month is required''), w)
        else
          (case aggregate (month_pipeline (plus_month js (month q)) [''price'', ''sold'']) w of
             (Inl e, w') \<Rightarrow> (Inl e, w')
           | (Inr xs, w') \<Rightarrow>
               (let transactions = documents xs;
                    totalSaleAmount =
                      foldl (\<lambda>sum item. js_plus js sum (Num (price item))) (Num 0)
                        (filter sold transactions);
                    totalSoldItems = length (filter sold transactions);
                    totalUnsoldItems = int (length transactions) - int totalSoldItems
                in (send r 200 (Statistics totalSaleAmount totalSoldItems totalUnsoldItems),
                    w'))))"

text \<open>
  The bar chart. \<^verbatim>\<open>ranges\<close> is the table of the source; the last bound is
  \<^verbatim>\<open>Infinity\<close>.
\<close>

record range =
  label :: string
  range_min :: jsnum
  range_max :: jsnum

definition ranges :: "range list" where
  "ranges =
     [\<lparr>label = ''0-100'', range_min = Num 0, range_max = Num 100\<rparr>,
      \<lparr>label = ''101-200'', range_min = Num 101, range_max = Num 200\<rparr>,
      \<lparr>label = ''201-300'', range_min = Num 201, range_max = Num 300\<rparr>,
      \<lparr>label = ''301-400'', range_min = Num 301, range_max = Num 400\<rparr>,
      \<lparr>label = ''401-500'', range_min = Num 401, range_max = Num 500\<rparr>,
      \<lparr>label = ''501-600'', range_min = Num 501, range_max = Num 600\<rparr>,
      \<lparr>label = ''601-700'', range_min = Num 601, range_max = Num 700\<rparr>,
      \<lparr>label = ''701-800'', range_min = Num 701, range_max = Num 800\<rparr>,
      \<lparr>label = ''801-900'', range_min = Num 801, range_max = Num 900\<rparr>,
      \<lparr>label = ''901-above'', range_min = Num 901, range_max = PosInf\<rparr>]"

definition in_range :: "range \<Rightarrow> transaction \<Rightarrow> bool" where
  "in_range rg item =
     (js_le (range_min rg) (Num (price item)) \<and> js_le (Num (price item)) (range_max rg)
      \<and> sold item)"

definition rangeCounts :: "transaction list \<Rightarrow> (string \<times> nat) list" where
  "rangeCounts transactions =
     map (\<lambda>rg. (label rg, length (filter (in_range rg) transactions))) ranges"

definition getBarChart :: "builtins \<Rightarrow> query \<Rightarrow> res option \<Rightarrow> world \<Rightarrow> outcome" where
  "getBarChart js q r w =
     catch_500 ''Failed to fetch bar chart data'' r
       (if month_rejected js (month q)
        then (send r 400 (Message ''Valid month is required''), w)
        else
          (case aggregate (month_pipeline (plus_month js (month q)) [''price'', ''sold'']) w of
             (Inl e, w') \<Rightarrow> (Inl e, w')
           | (Inr xs, w') \<Rightarrow> (send r 200 (RangeCounts (rangeCounts (documents xs))), w')))"

text \<open>
  The pie chart counts in a plain object \<^verbatim>\<open>acc\<close>, modelled by its own properties in
  creation order. Reading \<^verbatim>\<open>acc[category]\<close> finds an own property, else a property
  inherited from \<^verbatim>\<open>Object.prototype\<close> (a function or an object, never a number), else
  \<^verbatim>\<open>undefined\<close>. \<^verbatim>\<open>(acc[category] || 0) + 1\<close> is the next number for a number or
  \<^verbatim>\<open>undefined\<close>, and a string for anything else. Writing \<^verbatim>\<open>acc[category]\<close> updates
  or creates the own property, except for \<^verbatim>\<open>__proto__\<close>, whose setter ignores a string.
\<close>

type_synonym js_object = "(string \<times> count_val) list"

definition prototype_names :: "string list" where
  "prototype_names =
     [''constructor'', ''hasOwnProperty'', ''isPrototypeOf'', ''propertyIsEnumerable'',
      ''toLocaleString'', ''toString'', ''valueOf'', ''__proto__'', ''__defineGetter__'',
      ''__defineSetter__'', ''__lookupGetter__'', ''__lookupSetter__'']"

fun set_own :: "js_object \<Rightarrow> string \<Rightarrow> count_val \<Rightarrow> js_object" where
  "set_own [] k v = [(k, v)]"
| "set_own ((k', v') # ps) k v =
     (if k' = k then (k', v) # ps else (k', v') # set_own ps k v)"

definition plus_one :: "js_object \<Rightarrow> string \<Rightarrow> count_val" where
  "plus_one acc k =
     (case map_of acc k of
        Some (Number n) \<Rightarrow> Number (n + 1)
      | Some Not_a_number \<Rightarrow> Not_a_number
      | None \<Rightarrow> if k \<in> set prototype_names then Not_a_number else Number 1)"

definition count_up :: "js_object \<Rightarrow> string \<Rightarrow> js_object" where
  "count_up acc k = (if k = ''__proto__'' then acc else set_own acc k (plus_one acc k))"

text \<open>\<^verbatim>\<open>transaction.category || 'Uncategorized'\<close>\<close>

definition category_label :: "transaction \<Rightarrow> string" where
  "category_label t =
     (case category t of
        None \<Rightarrow> ''Uncategorized''
      | Some c \<Rightarrow> if c = [] then ''Uncategorized'' else c)"

definition categoryCounts :: "transaction list \<Rightarrow> js_object" where
  "categoryCounts transactions =
     foldl (\<lambda>acc t. count_up acc (category_label t)) [] transactions"

text \<open>
  \<^verbatim>\<open>Object.entries\<close> lists the keys that are array indices first (canonical decimal
  numerals up to \<open>2^32 - 2\<close>), in ascending numeric order, and then the other keys in
  creation order.
\<close>

definition is_digit :: "char \<Rightarrow> bool" where
  "is_digit c = (c \<in> set ''0123456789'')"

definition digit_of :: "char \<Rightarrow> nat" where
  "digit_of c = of_char c - 48"

definition decimal :: "string \<Rightarrow> nat" where
  "decimal ds = foldl (\<lambda>n c. 10 * n + digit_of c) 0 ds"

definition is_array_index :: "string \<Rightarrow> bool" where
  "is_array_index k =
     (k \<noteq> [] \<and> list_all is_digit k \<and> (k = ''0'' \<or> hd k \<noteq> CHR ''0'')
      \<and> int (decimal k) \<le> 4294967294)"

definition Object_entries :: "js_object \<Rightarrow> js_object" where
  "Object_entries acc =
     sort_key (\<lambda>p. decimal (fst p)) (filter (\<lambda>p. is_array_index (fst p)) acc)
     @ filter (\<lambda>p. \<not> is_array_index (fst p)) acc"

definition getPieChart :: "builtins \<Rightarrow> query \<Rightarrow> res option \<Rightarrow> world \<Rightarrow> outcome" where
  "getPieChart js q r w =
     catch_500 ''Failed to fetch pie chart data'' r
       (if month_rejected js (month q)
        then (send r 400 (Message ''Valid month is required''), w)
        else
          (case aggregate (month_pipeline (plus_month js (month q)) [''category'']) w of
             (Inl e, w') \<Rightarrow> (Inl e, w')
           | (Inr xs, w') \<Rightarrow>
               (send r 200 (CategoryCounts (Object_entries (categoryCounts (documents xs)))),
                w')))"

text \<open>
  The combined view calls the three handlers with \<^verbatim>\<open>{ query: { month } }\<close> and
  \<^verbatim>\<open>null\<close> for \<^verbatim>\<open>res\<close>, awaits the three promises together, and reads \<^verbatim>\<open>.error\<close>
  and \<^verbatim>\<open>.data\<close> of the three values. The value of a fulfilled handler promise is
  \<^verbatim>\<open>undefined\<close>: no handler returns an object with these fields, and reading
  \<^verbatim>\<open>.error\<close> of \<^verbatim>\<open>undefined\<close> throws a TypeError.
\<close>

datatype awaited = Undefined | Result bool body

definition fulfilled_value :: "response \<Rightarrow> awaited" where
  "fulfilled_value r = Undefined"

fun Promise_all :: "(error + response) list \<Rightarrow> error + awaited list" where
  "Promise_all [] = Inr []"
| "Promise_all (Inl e # ps) = Inl e"
| "Promise_all (Inr r # ps) =
     (case Promise_all ps of Inl e \<Rightarrow> Inl e | Inr vs \<Rightarrow> Inr (fulfilled_value r # vs))"

fun dot_error :: "awaited \<Rightarrow> error + bool" where
  "dot_error Undefined = Inl TypeError"
| "dot_error (Result e d) = Inr e"

fun dot_data :: "awaited \<Rightarrow> error + body" where
  "dot_data Undefined = Inl TypeError"
| "dot_data (Result e d) = Inr d"

text \<open>
  \<^verbatim>\<open>if (statistics.error || barChart.error || pieChart.error) throw ...\<close>, then the
  combined object and its response.
\<close>

definition combine :: "awaited \<Rightarrow> awaited \<Rightarrow> awaited \<Rightarrow> res option \<Rightarrow> error + response" where
  "combine statistics barChart pieChart r =
     (case dot_error statistics of
        Inl e \<Rightarrow> Inl e
      | Inr True \<Rightarrow> Inl (Error ''Error fetching data from one or more APIs'')
      | Inr False \<Rightarrow>
     (case dot_error barChart of
        Inl e \<Rightarrow> Inl e
      | Inr True \<Rightarrow> Inl (Error ''Error fetching data from one or more APIs'')
      | Inr False \<Rightarrow>
     (case dot_error pieChart of
        Inl e \<Rightarrow> Inl e
      | Inr True \<Rightarrow> Inl (Error ''Error fetching data from one or more APIs'')
      | Inr False \<Rightarrow>
     (case dot_data statistics of
        Inl e \<Rightarrow> Inl e
      | Inr s \<Rightarrow>
     (case dot_data barChart of
        Inl e \<Rightarrow> Inl e
      | Inr b \<Rightarrow>
     (case dot_data pieChart of
        Inl e \<Rightarrow> Inl e
      | Inr p \<Rightarrow> send r 200 (Combined s b p)))))))"

definition only_month :: "query \<Rightarrow> query" where
  "only_month q = \<lparr>month = month q, search = None, page = None, perPage_param = None\<rparr>"

definition getCombinedData :: "builtins \<Rightarrow> query \<Rightarrow> res option \<Rightarrow> world \<Rightarrow> outcome" where
  "getCombinedData js q r w =
     catch_500 ''Failed to fetch combined data'' r
       (if month_rejected js (month q)
        then (send r 400 (Message ''Valid month is required''), w)
        else
          (let (statisticsPromise, w1) = getStatistics js (only_month q) None w;
               (barChartPromise, w2) = getBarChart js (only_month q) None w1;
               (pieChartPromise, w3) = getPieChart js (only_month q) None w2
           in (case Promise_all [statisticsPromise, barChartPromise, pieChartPromise] of
                 Inl e \<Rightarrow> (Inl e, w3)
               | Inr [statistics, barChart, pieChart] \<Rightarrow>
                   (combine statistics barChart pieChart r, w3)
               | Inr _ \<Rightarrow> (Inl TypeError, w3))))"

text \<open>
  The list view. The defaults of \<^verbatim>\<open>page\<close> and \<^verbatim>\<open>perPage\<close> are the numbers 1 and
  10, which \<^verbatim>\<open>parseInt\<close> reads as the strings \<^verbatim>\<open>"1"\<close> and \<^verbatim>\<open>"10"\<close>. Every element of
  the \<^verbatim>\<open>$or\<close> array is an object, so \<^verbatim>\<open>.filter(Boolean)\<close> keeps all three.
  \<^verbatim>\<open>pipeline.slice(0, -2)\<close> drops the last two stages.
\<close>

definition or_default :: "string option \<Rightarrow> string \<Rightarrow> string" where
  "or_default p d = (case p of None \<Rightarrow> d | Some s \<Rightarrow> s)"

definition limit_of :: "builtins \<Rightarrow> query \<Rightarrow> int" where
  "limit_of js q =
     (case parseInt10 js (or_default (perPage_param q) ''10'') of
        None \<Rightarrow> 10
      | Some n \<Rightarrow> if n = 0 then 10 else n)"

definition skip_of :: "builtins \<Rightarrow> query \<Rightarrow> int option" where
  "skip_of js q =
     (case parseInt10 js (or_default (page q) ''1'') of
        None \<Rightarrow> None
      | Some p \<Rightarrow> Some ((p - 1) * limit_of js q))"

definition Boolean :: "cond \<Rightarrow> bool" where
  "Boolean c = True"

definition searchQuery :: "builtins \<Rightarrow> (string \<Rightarrow> bool) \<Rightarrow> string \<Rightarrow> cond list" where
  "searchQuery js searchRegex s =
     filter Boolean
       [Title_regex searchRegex,
        Description_regex searchRegex,
        Price_eq (if isNaN (ToNumber js s) then None else Some (ToNumber js s))]"

definition list_pipeline :: "builtins \<Rightarrow> query \<Rightarrow> (string \<Rightarrow> bool) \<Rightarrow> stage list" where
  "list_pipeline js q searchRegex =
     [AddFields_month,
      Match (Some (plus_month js (month q)))
        (Some (searchQuery js searchRegex (or_default (search q) []))),
      Skip (skip_of js q),
      Limit (limit_of js q),
      Project [''title'', ''description'', ''price'', ''sold'', ''dateOfSale'', ''category'']]"

definition slice_0_minus2 :: "'a list \<Rightarrow> 'a list" where
  "slice_0_minus2 xs = take (length xs - 2) xs"

definition first_totalRecords :: "item list \<Rightarrow> nat" where
  "first_totalRecords ys = (case ys of Count_doc n # _ \<Rightarrow> n | _ \<Rightarrow> 0)"

definition Math_ceil_div :: "nat \<Rightarrow> int \<Rightarrow> int" where
  "Math_ceil_div a b = \<lceil>(of_nat a :: rat) / of_int b\<rceil>"

definition listTransactions :: "builtins \<Rightarrow> query \<Rightarrow> res option \<Rightarrow> world \<Rightarrow> outcome" where
  "listTransactions js q r w =
     catch_500 ''Failed to fetch transactions'' r
       (if month_rejected js (month q)
        then (send r 400 (Message ''Valid month is required''), w)
        else
          (case RegExp_i js (or_default (search q) []) of
             None \<Rightarrow> (Inl SyntaxError, w)
           | Some searchRegex \<Rightarrow>
               (let pipeline = list_pipeline js q searchRegex
                in case aggregate pipeline w of
                     (Inl e, w1) \<Rightarrow> (Inl e, w1)
                   | (Inr xs, w1) \<Rightarrow>
                       (let transactions = documents xs;
                            totalRecordsPipeline = slice_0_minus2 pipeline @ [Count]
                        in case aggregate totalRecordsPipeline w1 of
                             (Inl e, w2) \<Rightarrow> (Inl e, w2)
                           | (Inr ys, w2) \<Rightarrow>
                               (let total = first_totalRecords ys
                                in (send r 200
                                      (Listing transactions
                                         \<lparr>totalRecords = total,
                                          currentPage = parseInt10 js (or_default (page q) ''1''),
                                          perPage = limit_of js q,
                                          totalPages = Math_ceil_div total (limit_of js q)\<rparr>),
                                    w2))))))"

text \<open>
  The seed loader. \<open>fetched\<close> is what \<^verbatim>\<open>axios.get\<close> gives: an error, or the JSON
  array. \<^verbatim>\<open>insertMany\<close> applies the schema to every object first and throws, without
  a call to the store, if one of them lacks a required field (an empty title counts as
  lacking). With no document to write it returns the empty list, again without a call to
  the store. Otherwise it writes the documents in order; when that call throws, the
  documents written before remain. A \<^verbatim>\<open>deleteMany\<close> that throws has removed the
  documents it had processed.
\<close>

definition apply_schema :: "raw_transaction \<Rightarrow> transaction option" where
  "apply_schema x =
     (case (raw_title x, raw_price x, raw_dateOfSale x) of
        (Some t, Some p, Some d) \<Rightarrow>
          if t = [] then None
          else Some \<lparr>title = t, description = raw_description x, price = p,
                     category = raw_category x, dateOfSale = d,
                     sold = (case raw_sold x of None \<Rightarrow> False | Some b \<Rightarrow> b)\<rparr>
      | _ \<Rightarrow> None)"

fun apply_schema_all :: "raw_transaction list \<Rightarrow> transaction list option" where
  "apply_schema_all [] = Some []"
| "apply_schema_all (x # xs) =
     (case apply_schema x of
        None \<Rightarrow> None
      | Some t \<Rightarrow> (case apply_schema_all xs of None \<Rightarrow> None | Some ts \<Rightarrow> Some (t # ts)))"

definition deleteMany :: "world \<Rightarrow> (error + unit) \<times> world" where
  "deleteMany w =
     (case store_call w of
        (Answers, w') \<Rightarrow> (Inr (), w'\<lparr>docs := []\<rparr>)
      | (Throws k, w') \<Rightarrow> (Inl StoreError, w'\<lparr>docs := drop k (docs w')\<rparr>))"

definition insertMany :: "raw_transaction list \<Rightarrow> world \<Rightarrow> (error + transaction list) \<times> world" where
  "insertMany data w =
     (case apply_schema_all data of
        None \<Rightarrow> (Inl ValidationError, w)
      | Some ts \<Rightarrow>
          if ts = [] then (Inr [], w)
          else (case store_call w of
                  (Answers, w') \<Rightarrow> (Inr ts, w'\<lparr>docs := docs w' @ ts\<rparr>)
                | (Throws k, w') \<Rightarrow> (Inl StoreError, w'\<lparr>docs := docs w' @ take k ts\<rparr>)))"

definition initializeDB :: "(error + raw_transaction list) \<Rightarrow> res option \<Rightarrow> world \<Rightarrow> outcome" where
  "initializeDB fetched r w =
     catch_500 ''Failed to initialize database'' r
       (case fetched of
          Inl e \<Rightarrow> (Inl e, w)
        | Inr data \<Rightarrow>
            (case deleteMany w of
               (Inl e, w1) \<Rightarrow> (Inl e, w1)
             | (Inr u, w1) \<Rightarrow>
                 (case insertMany data w1 of
                    (Inl e, w2) \<Rightarrow> (Inl e, w2)
                  | (Inr transactions, w2) \<Rightarrow>
                      (send r 200
                         (Initialized ''Database initialized successfully!''
                            (length transactions)),
                       w2))))"

section \<open>The built-ins on text\<close>

text \<open>
  An instance of the built-ins, used to run the handlers on concrete requests. Numbers
  are exact (no rounding to binary64), characters are ASCII.

  \<open>StringToNumber\<close> follows the grammar of numeric string literals: surrounding white
  space is dropped; the empty string is 0; a \<^verbatim>\<open>0x\<close>, \<^verbatim>\<open>0o\<close> or \<^verbatim>\<open>0b\<close> literal has no
  sign; a decimal literal has an optional sign, digits with an optional fraction, and an
  optional exponent; anything else is NaN.
\<close>

definition is_space :: "char \<Rightarrow> bool" where
  "is_space c = (c \<in> set [CHR 0x09, CHR 0x0A, CHR 0x0B, CHR 0x0C, CHR 0x0D, CHR 0x20])"

definition trim :: "string \<Rightarrow> string" where
  "trim s = rev (dropWhile is_space (rev (dropWhile is_space s)))"

definition all_digits :: "string \<Rightarrow> bool" where
  "all_digits ds = (ds \<noteq> [] \<and> list_all is_digit ds)"

definition strip_sign :: "string \<Rightarrow> int \<times> string" where
  "strip_sign s =
     (case s of
        [] \<Rightarrow> (1, [])
      | c # t \<Rightarrow> if c = CHR ''-'' then (- 1, t) else if c = CHR ''+'' then (1, t) else (1, s))"

definition pow10 :: "int \<Rightarrow> rat" where
  "pow10 e = (if 0 \<le> e then 10 ^ nat e else 1 / 10 ^ nat (- e))"

definition exponent_part :: "string \<Rightarrow> int option" where
  "exponent_part s =
     (case s of
        [] \<Rightarrow> Some 0
      | c # t \<Rightarrow>
          if c = CHR ''e'' \<or> c = CHR ''E''
          then (let (sg, ds) = strip_sign t
                in if all_digits ds then Some (sg * int (decimal ds)) else None)
          else None)"

definition unsigned_decimal :: "string \<Rightarrow> rat option" where
  "unsigned_decimal s =
     (let ip = takeWhile is_digit s;
          r1 = dropWhile is_digit s;
          has_dot = (r1 \<noteq> [] \<and> hd r1 = CHR ''.'');
          fp = (if has_dot then takeWhile is_digit (tl r1) else []);
          r2 = (if has_dot then dropWhile is_digit (tl r1) else r1)
      in if ip = [] \<and> fp = [] then None
         else (case exponent_part r2 of
                 None \<Rightarrow> None
               | Some e \<Rightarrow> Some (of_nat (decimal (ip @ fp)) * pow10 (e - int (length fp)))))"

definition digit_value :: "char \<Rightarrow> nat" where
  "digit_value c =
     (let n = of_char c :: nat
      in if 48 \<le> n \<and> n \<le> 57 then n - 48
         else if 97 \<le> n \<and> n \<le> 102 then n - 87
         else if 65 \<le> n \<and> n \<le> 70 then n - 55
         else 36)"

definition radix_of :: "char \<Rightarrow> nat" where
  "radix_of x =
     (if x \<in> set ''xX'' then 16 else if x \<in> set ''oO'' then 8
      else if x \<in> set ''bB'' then 2 else 0)"

definition radix_literal :: "string \<Rightarrow> nat option" where
  "radix_literal s =
     (case s of
        z # x # ds \<Rightarrow>
          if z = CHR ''0'' \<and> ds \<noteq> [] \<and> radix_of x \<noteq> 0
             \<and> list_all (\<lambda>c. digit_value c < radix_of x) ds
          then Some (foldl (\<lambda>n c. radix_of x * n + digit_value c) 0 ds)
          else None
      | _ \<Rightarrow> None)"

definition StringToNumber :: "string \<Rightarrow> jsnum" where
  "StringToNumber s =
     (let t = trim s
      in if t = [] then Num 0
         else (case radix_literal t of
                 Some n \<Rightarrow> Num (of_nat n)
               | None \<Rightarrow>
                   (let (sg, u) = strip_sign t
                    in if u = ''Infinity'' then (if sg = 1 then PosInf else NegInf)
                       else (case unsigned_decimal u of
                               None \<Rightarrow> NaN
                             | Some v \<Rightarrow> Num (of_int sg * v)))))"

text \<open>
  \<^verbatim>\<open>parseInt(s, 10)\<close>: leading white space, an optional sign, and the longest run of
  decimal digits; NaN when there is no digit.
\<close>

definition parseInt_10 :: "string \<Rightarrow> int option" where
  "parseInt_10 s =
     (let (sg, u) = strip_sign (dropWhile is_space s);
          ds = takeWhile is_digit u
      in if ds = [] then None else Some (sg * int (decimal ds)))"

text \<open>
  Regular expressions, for the patterns made of ordinary characters and \<^verbatim>\<open>.\<close> only:
  an ordinary character matches itself in either case, \<^verbatim>\<open>.\<close> matches any character
  but a line feed, and the pattern may match anywhere in the text. A pattern with another
  syntax character is outside this instance, which answers \<open>None\<close> for it (as the
  language does for \<^verbatim>\<open>(\<close>); no general statement below depends on that answer.
\<close>

definition syntax_characters :: "char list" where
  "syntax_characters = CHR 0x5C # ''^$.*+?()[]{}|''"

definition lower :: "char \<Rightarrow> char" where
  "lower c =
     (case map_of (zip ''ABCDEFGHIJKLMNOPQRSTUVWXYZ'' ''abcdefghijklmnopqrstuvwxyz'') c of
        Some l \<Rightarrow> l
      | None \<Rightarrow> c)"

definition atom_matches :: "char \<Rightarrow> char \<Rightarrow> bool" where
  "atom_matches p c = (if p = CHR ''.'' then c \<noteq> CHR 0x0A else lower p = lower c)"

fun matches_at :: "string \<Rightarrow> string \<Rightarrow> bool" where
  "matches_at [] cs = True"
| "matches_at (p # ps) [] = False"
| "matches_at (p # ps) (c # cs) = (atom_matches p c \<and> matches_at ps cs)"

fun matches_somewhere :: "string \<Rightarrow> string \<Rightarrow> bool" where
  "matches_somewhere ps [] = matches_at ps []"
| "matches_somewhere ps (c # cs) = (matches_at ps (c # cs) \<or> matches_somewhere ps cs)"

definition RegExp_simple :: "string \<Rightarrow> (string \<Rightarrow> bool) option" where
  "RegExp_simple p =
     (if list_ex (\<lambda>c. c \<noteq> CHR ''.'' \<and> c \<in> set syntax_characters) p then None
      else Some (matches_somewhere p))"

text \<open>Addition without rounding.\<close>

fun exact_plus :: "jsnum \<Rightarrow> jsnum \<Rightarrow> jsnum" where
  "exact_plus NaN b = NaN"
| "exact_plus a NaN = NaN"
| "exact_plus (Num a) (Num b) = Num (a + b)"
| "exact_plus PosInf NegInf = NaN"
| "exact_plus NegInf PosInf = NaN"
| "exact_plus PosInf b = PosInf"
| "exact_plus a PosInf = PosInf"
| "exact_plus NegInf b = NegInf"
| "exact_plus a NegInf = NegInf"

definition js0 :: builtins where
  "js0 = \<lparr>ToNumber = StringToNumber, parseInt10 = parseInt_10, RegExp_i = RegExp_simple,
           js_plus = exact_plus\<rparr>"

section \<open>Notions of the specification\<close>

text \<open>The records whose sale month is the number \<open>x\<close>.\<close>

definition in_month :: "rat \<Rightarrow> transaction list \<Rightarrow> transaction list" where
  "in_month x ts = filter (\<lambda>t. of_nat (dollar_month (dateOfSale t)) = x) ts"

text \<open>The text \<open>s\<close> occurs in \<open>t\<close>, ignoring the case of letters.\<close>

definition contains_ci :: "string \<Rightarrow> string \<Rightarrow> bool" where
  "contains_ci t s = (\<exists>before after. map lower t = before @ map lower s @ after)"

text \<open>The distinct elements of a list, in the order of their first occurrence.\<close>

definition first_occurrences :: "'a list \<Rightarrow> 'a list" where
  "first_occurrences xs = rev (remdups (rev xs))"

text \<open>A request that gives only the month, and a store that never throws.\<close>

definition for_month :: "string \<Rightarrow> query" where
  "for_month m = \<lparr>month = Some m, search = None, page = None, perPage_param = None\<rparr>"

definition store_of :: "transaction list \<Rightarrow> world" where
  "store_of ts = \<lparr>docs = ts, faults = [], calls = 0\<rparr>"

text \<open>The two records of the specification's example, both sold in March 2024.\<close>

definition example_docs :: "transaction list" where
  "example_docs =
     [\<lparr>title = ''A'', description = None, price = 150, category = Some ''Electronics'',
       dateOfSale = Date 2024 3 10, sold = True\<rparr>,
      \<lparr>title = ''B'', description = None, price = 50, category = None,
       dateOfSale = Date 2024 3 12, sold = False\<rparr>]"

text \<open>The next \<open>n\<close> calls to the store do not throw.\<close>

definition calls_answer :: "nat \<Rightarrow> world \<Rightarrow> bool" where
  "calls_answer n w = list_all (\<lambda>f. f = Answers) (take n (faults w))"

text \<open>
  The sum of a list of numbers as the language computes it: starting from 0, each number
  in turn is added to the sum so far.
\<close>

definition js_sum :: "builtins \<Rightarrow> rat list \<Rightarrow> jsnum" where
  "js_sum js xs = foldl (\<lambda>sum x. js_plus js sum (Num x)) (Num 0) xs"

text \<open>
  A fetched object is well formed when it has a title that is not empty, a price and a
  date of sale. A stored record holds a fetched object when each of its fields is the
  field of the object; the flag \<^verbatim>\<open>sold\<close> of an object that has none is false.
\<close>

definition well_formed :: "raw_transaction \<Rightarrow> bool" where
  "well_formed x =
     ((case raw_title x of None \<Rightarrow> False | Some t \<Rightarrow> t \<noteq> []) \<and> raw_price x \<noteq> None
      \<and> raw_dateOfSale x \<noteq> None)"

definition stored_as :: "raw_transaction \<Rightarrow> transaction \<Rightarrow> bool" where
  "stored_as x t =
     (raw_title x = Some (title t) \<and> raw_description x = description t
      \<and> raw_price x = Some (price t) \<and> raw_category x = category t
      \<and> raw_dateOfSale x = Some (dateOfSale t) \<and> sold t = (raw_sold x = Some True))"

text \<open>
  A fetched array of one object, one of two objects, one whose object has no title, and a
  store whose first call answers and whose second call throws after one document.
\<close>

definition example_data :: "raw_transaction list" where
  "example_data =
     [\<lparr>raw_title = Some ''C'', raw_description = Some ''a lamp'', raw_price = Some 20,
       raw_category = Some ''Home'', raw_dateOfSale = Some (Date 2022 7 1), raw_sold = None\<rparr>]"

definition second_data :: "raw_transaction list" where
  "second_data =
     [\<lparr>raw_title = Some ''D'', raw_description = Some ''a desk'', raw_price = Some (199 / 2),
       raw_category = Some ''Office'', raw_dateOfSale = Some (Date 2023 1 15),
       raw_sold = Some True\<rparr>,
      \<lparr>raw_title = Some ''E'', raw_description = None, raw_price = Some 7,
       raw_category = None, raw_dateOfSale = Some (Date 2023 2 20), raw_sold = Some False\<rparr>]"

definition failing_store :: world where
  "failing_store = \<lparr>docs = example_docs, faults = [Answers, Throws 1], calls = 0\<rparr>"

text \<open>A store whose second call throws before it has written anything.\<close>

definition refusing_store :: world where
  "refusing_store = \<lparr>docs = example_docs, faults = [Answers, Throws 0], calls = 0\<rparr>"

definition untitled_data :: "raw_transaction list" where
  "untitled_data =
     [\<lparr>raw_title = None, raw_description = None, raw_price = Some 20,
       raw_category = None, raw_dateOfSale = Some (Date 2022 7 1), raw_sold = Some True\<rparr>]"

text \<open>
  A record matches a search when the test \<open>re\<close> holds of its title or of its description,
  or its price is the number \<open>n\<close>; \<open>selected\<close> are the records of the month \<open>x\<close> that
  match.
\<close>

definition matches_search :: "(string \<Rightarrow> bool) \<Rightarrow> jsnum \<Rightarrow> transaction \<Rightarrow> bool" where
  "matches_search re n t =
     (re (title t) \<or> (case description t of None \<Rightarrow> False | Some d \<Rightarrow> re d) \<or> n = Num (price t))"

text \<open>Three records of March, the request for their second page of two, and a record
  whose price lies between two buckets of the bar chart.\<close>

definition three_docs :: "transaction list" where
  "three_docs =
     [\<lparr>title = ''X'', description = None, price = 10, category = None,
       dateOfSale = Date 2024 3 1, sold = True\<rparr>,
      \<lparr>title = ''Y'', description = None, price = 20, category = None,
       dateOfSale = Date 2024 3 2, sold = True\<rparr>,
      \<lparr>title = ''Z'', description = None, price = 30, category = None,
       dateOfSale = Date 2024 3 3, sold = True\<rparr>]"

definition second_page_of_two :: query where
  "second_page_of_two =
     \<lparr>month = Some ''3'', search = None, page = Some ''2'', perPage_param = Some ''2''\<rparr>"

definition gap_docs :: "transaction list" where
  "gap_docs =
     [\<lparr>title = ''G'', description = None, price = 201 / 2, category = None,
       dateOfSale = Date 2024 3 5, sold = True\<rparr>]"

definition selected :: "rat \<Rightarrow> (string \<Rightarrow> bool) \<Rightarrow> jsnum \<Rightarrow> transaction list \<Rightarrow> transaction list" where
  "selected x re n ts =
     filter (\<lambda>t. of_nat (dollar_month (dateOfSale t)) = x \<and> matches_search re n t) ts"

text \<open>
  For the pie chart: the number a count holds, the order in which an object lists its
  keys, the labels of the records of a month, and the counts of a list of labels in the
  order of their first occurrence.
\<close>

definition number_of :: "count_val \<Rightarrow> nat" where
  "number_of v = (case v of Number n \<Rightarrow> n | Not_a_number \<Rightarrow> 0)"

definition entries_order :: "string list \<Rightarrow> string list" where
  "entries_order ks =
     sort_key decimal (filter is_array_index ks) @ filter (\<lambda>k. \<not> is_array_index k) ks"

definition tally :: "string list \<Rightarrow> js_object" where
  "tally labels = map (\<lambda>c. (c, Number (count_list labels c))) (first_occurrences labels)"

definition month_labels :: "rat \<Rightarrow> transaction list \<Rightarrow> string list" where
  "month_labels x ts = map category_label (in_month x ts)"

text \<open>Two records of March whose categories are \<^verbatim>\<open>b\<close> and \<^verbatim>\<open>1\<close>, in this order.\<close>

definition numbered_docs :: "transaction list" where
  "numbered_docs =
     [\<lparr>title = ''P'', description = None, price = 5, category = Some ''b'',
       dateOfSale = Date 2024 3 1, sold = True\<rparr>,
      \<lparr>title = ''Q'', description = None, price = 6, category = Some ''1'',
       dateOfSale = Date 2024 3 2, sold = False\<rparr>]"

text \<open>Text without any syntax character of regular expressions.\<close>

definition plain_text :: "string \<Rightarrow> bool" where
  "plain_text s = (\<not> list_ex (\<lambda>c. c \<in> set syntax_characters) s)"

text \<open>Records to search in, a search for \<^verbatim>\<open>lamp\<close> and a search for \<^verbatim>\<open>.\<close>.\<close>

definition lamp_docs :: "transaction list" where
  "lamp_docs =
     [\<lparr>title = ''Desk Lamp'', description = Some ''warm light'', price = 40, category = None,
       dateOfSale = Date 2024 3 7, sold = True\<rparr>,
      \<lparr>title = ''Chair'', description = Some ''goes with a LAMP'', price = 90, category = None,
       dateOfSale = Date 2024 3 8, sold = False\<rparr>,
      \<lparr>title = ''Table'', description = None, price = 120, category = None,
       dateOfSale = Date 2024 3 9, sold = True\<rparr>,
      \<lparr>title = ''Lamp shade'', description = None, price = 15, category = None,
       dateOfSale = Date 2024 4 1, sold = True\<rparr>]"

definition lamp_search :: query where
  "lamp_search = \<lparr>month = Some ''3'', search = Some ''lamp'', page = None, perPage_param = None\<rparr>"

definition dot_search :: query where
  "dot_search = \<lparr>month = Some ''3'', search = Some ''.'', page = None, perPage_param = None\<rparr>"

section \<open>Properties\<close>

lemma documents_map_Doc: "documents (map (\<lambda>t. Doc t (f t)) ts) = ts"
  by (induction ts) simp_all

lemma run_month_pipeline:
  "run_pipeline (month_pipeline (Num x) fs) (map (\<lambda>t. Doc t None) ts)
     = Inr (map (\<lambda>t. Doc t (if ''month'' \<in> set fs then Some (dollar_month (dateOfSale t)) else None))
              (in_month x ts))"
  by (induction ts) (simp_all add: month_pipeline_def in_month_def)


text \<open>Where the addition does not round, the sum is the sum of the numbers.\<close>

lemma js_sum_exact:
  assumes "\<And>a b. js_plus js (Num a) (Num b) = Num (a + b)"
  shows "js_sum js xs = Num (sum_list xs)"
proof -
  have "foldl (\<lambda>sum x. js_plus js sum (Num x)) (Num a) xs = Num (a + sum_list xs)" for a
    by (induction xs arbitrary: a) (simp_all add: assms add.assoc)
  from this [of 0] show ?thesis by (simp add: js_sum_def)
qed

subsection \<open>The store and the month check\<close>

lemma docs_store_call: "docs (snd (store_call w)) = docs w"
  by (simp add: store_call_def split: list.splits)

lemma calls_store_call: "calls (snd (store_call w)) = calls w + 1"
  by (simp add: store_call_def split: list.splits)

lemma store_call_answers:
  "\<not> next_call_throws w \<Longrightarrow> store_call w = (Answers, snd (store_call w))"
  by (cases "store_call w") (simp add: next_call_throws_def)

lemma aggregate_ok:
  "\<not> next_call_throws w \<Longrightarrow>
   aggregate p w = (run_pipeline p (map (\<lambda>t. Doc t None) (docs w)), snd (store_call w))"
  by (cases "store_call w")
    (use docs_store_call [of w] in \<open>auto simp: aggregate_def next_call_throws_def\<close>)

lemma aggregate_throws:
  "next_call_throws w \<Longrightarrow> aggregate p w = (Inl StoreError, snd (store_call w))"
  by (cases "store_call w"; cases "fst (store_call w)")
    (simp_all add: aggregate_def next_call_throws_def)

lemma month_accepted:
  "month q = Some m \<Longrightarrow> m \<noteq> [] \<Longrightarrow> ToNumber js m = Num x \<Longrightarrow> 0 < x \<Longrightarrow> x \<le> 12 \<Longrightarrow>
   \<not> month_rejected js (month q) \<and> plus_month js (month q) = Num x"
  by (simp add: month_rejected_def plus_month_def)

lemmas StringToNumber_defs =
  StringToNumber_def trim_def is_space_def radix_literal_def radix_of_def strip_sign_def
  unsigned_decimal_def is_digit_def exponent_part_def decimal_def digit_of_def pow10_def

lemma StringToNumber_3: "StringToNumber ''3'' = Num 3"
  by (simp add: StringToNumber_defs)

lemma store_of_quiet: "\<not> next_call_throws (store_of ts)"
  by (simp add: next_call_throws_def store_call_def store_of_def)

subsection \<open>Statistics\<close>



lemma StringToNumber_13: "StringToNumber ''13'' = Num 13"
  by (simp add: StringToNumber_defs)

lemma StringToNumber_0: "StringToNumber ''0'' = Num 0"
  by (simp add: StringToNumber_defs)

lemma StringToNumber_minus_4: "StringToNumber ''-4'' = Num (- 4)"
  by (simp add: StringToNumber_defs)

lemma StringToNumber_abc: "StringToNumber ''abc'' = NaN"
  by (simp add: StringToNumber_defs)

subsection \<open>The month check\<close>

lemma month_out_of_range:
  assumes "month q = None \<or>
     (\<exists>m. month q = Some m \<and>
        ((\<exists>x. ToNumber js m = Num x \<and> (x \<le> 0 \<or> 12 < x))
         \<or> ToNumber js m = PosInf \<or> ToNumber js m = NegInf))"
  shows "month_rejected js (month q)"
  using assms by (auto simp: month_rejected_def)

text \<open>
  C3. A request whose \<open>month\<close> is absent, or is text whose number is zero, negative or
  greater than 12 (the infinities included), gets status 400 from each of the five
  handlers, and the store is not called: the world is returned as it was.
\<close>

theorem invalid_month_is_rejected:
  assumes "month q = None \<or>
     (\<exists>m. month q = Some m \<and>
        ((\<exists>x. ToNumber js m = Num x \<and> (x \<le> 0 \<or> 12 < x))
         \<or> ToNumber js m = PosInf \<or> ToNumber js m = NegInf))"
  shows "listTransactions js q (Some Res) w = (Inr (400, Message ''Valid month is required''), w)
       \<and> getStatistics js q (Some Res) w = (Inr (400, Message ''Valid month is required''), w)
       \<and> getBarChart js q (Some Res) w = (Inr (400, Message ''Valid month is required''), w)
       \<and> getPieChart js q (Some Res) w = (Inr (400, Message ''Valid month is required''), w)
       \<and> getCombinedData js q (Some Res) w = (Inr (400, Message ''Valid month is required''), w)"
proof -
  have r: "month_rejected js (month q)"
    using assms by (rule month_out_of_range)
  show ?thesis
    by (simp add: r listTransactions_def getStatistics_def getBarChart_def getPieChart_def
        getCombinedData_def catch_500_def send_def)
qed

theorem invalid_month_is_rejected_witness:
  "getCombinedData js0 (for_month ''13'') (Some Res) (store_of example_docs)
     = (Inr (400, Message ''Valid month is required''), store_of example_docs)
   \<and> listTransactions js0 (for_month ''0'') (Some Res) (store_of example_docs)
     = (Inr (400, Message ''Valid month is required''), store_of example_docs)
   \<and> getStatistics js0 (for_month ''-4'') (Some Res) (store_of example_docs)
     = (Inr (400, Message ''Valid month is required''), store_of example_docs)
   \<and> getPieChart js0 \<lparr>month = None, search = None, page = None, perPage_param = None\<rparr>
        (Some Res) (store_of example_docs)
     = (Inr (400, Message ''Valid month is required''), store_of example_docs)"
proof -
  have a: "month (for_month ''13'') = None \<or>
     (\<exists>m. month (for_month ''13'') = Some m \<and>
        ((\<exists>x. ToNumber js0 m = Num x \<and> (x \<le> 0 \<or> 12 < x))
         \<or> ToNumber js0 m = PosInf \<or> ToNumber js0 m = NegInf))"
    by (simp add: for_month_def js0_def StringToNumber_13)
  have b: "month (for_month ''0'') = None \<or>
     (\<exists>m. month (for_month ''0'') = Some m \<and>
        ((\<exists>x. ToNumber js0 m = Num x \<and> (x \<le> 0 \<or> 12 < x))
         \<or> ToNumber js0 m = PosInf \<or> ToNumber js0 m = NegInf))"
    by (simp add: for_month_def js0_def StringToNumber_0)
  have c: "month (for_month ''-4'') = None \<or>
     (\<exists>m. month (for_month ''-4'') = Some m \<and>
        ((\<exists>x. ToNumber js0 m = Num x \<and> (x \<le> 0 \<or> 12 < x))
         \<or> ToNumber js0 m = PosInf \<or> ToNumber js0 m = NegInf))"
    by (simp add: for_month_def js0_def StringToNumber_minus_4)
  show ?thesis
    using invalid_month_is_rejected [OF a, of "store_of example_docs"]
      invalid_month_is_rejected [OF b, of "store_of example_docs"]
      invalid_month_is_rejected [OF c, of "store_of example_docs"]
      invalid_month_is_rejected
        [of "\<lparr>month = None, search = None, page = None, perPage_param = None\<rparr>" js0
          "store_of example_docs"]
    by simp
qed

subsection \<open>The combined view\<close>

text \<open>
  Called with \<^verbatim>\<open>null\<close> for \<^verbatim>\<open>res\<close>, a handler can only reject: whatever its \<^verbatim>\<open>try\<close>
  block does, it ends in \<^verbatim>\<open>res.status\<close>, and so does its \<^verbatim>\<open>catch\<close> block.
\<close>

lemma null_res_statistics: "fst (getStatistics js q None w) = Inl TypeError"
  by (simp add: getStatistics_def catch_500_def send_def Let_def split: prod.splits sum.splits)

lemma null_res_bar_chart: "fst (getBarChart js q None w) = Inl TypeError"
  by (simp add: getBarChart_def catch_500_def send_def Let_def split: prod.splits sum.splits)

lemma null_res_pie_chart: "fst (getPieChart js q None w) = Inl TypeError"
  by (simp add: getPieChart_def catch_500_def send_def Let_def split: prod.splits sum.splits)

text \<open>
  So the combined view has two responses only: 400 for a month that fails the check, and
  500 for every other request.
\<close>

lemma getCombinedData_response:
  "fst (getCombinedData js q (Some Res) w)
     = Inr (if month_rejected js (month q) then (400, Message ''Valid month is required'')
            else (500, Failure ''Failed to fetch combined data'' TypeError))"
proof (cases "month_rejected js (month q)")
  case True
  then show ?thesis by (simp add: getCombinedData_def catch_500_def send_def)
next
  case False
  obtain s w1 where s: "getStatistics js (only_month q) None w = (s, w1)" by fastforce
  obtain b w2 where b: "getBarChart js (only_month q) None w1 = (b, w2)" by fastforce
  obtain p w3 where p: "getPieChart js (only_month q) None w2 = (p, w3)" by fastforce
  from s null_res_statistics [of js "only_month q" w] have "s = Inl TypeError" by simp
  with False s b p show ?thesis
    by (simp add: getCombinedData_def catch_500_def send_def)
qed

text \<open>
  C1. On the store of the specification's example and the month 3, the combined view
  responds with status 500, not with the three views' results.
\<close>

theorem getCombinedData_valid_month_fails:
  "fst (getCombinedData js0 (for_month ''3'') (Some Res) (store_of example_docs))
     = Inr (500, Failure ''Failed to fetch combined data'' TypeError)"
proof -
  have "\<not> month_rejected js0 (month (for_month ''3''))"
    by (simp add: month_rejected_def for_month_def js0_def StringToNumber_3)
  then show ?thesis by (simp add: getCombinedData_response)
qed

subsection \<open>Seeding\<close>

lemma calls_answer_Suc:
  "calls_answer (Suc n) w \<Longrightarrow> \<not> next_call_throws w \<and> calls_answer n (snd (store_call w))"
  by (cases "faults w") (simp_all add: calls_answer_def next_call_throws_def store_call_def)

lemma calls_answer_docs [simp]: "calls_answer n (w\<lparr>docs := ds\<rparr>) = calls_answer n w"
  by (simp add: calls_answer_def)

lemma store_of_answers: "calls_answer n (store_of ts)"
  by (simp add: calls_answer_def store_of_def)

lemma next_call_throws_docs [simp]: "next_call_throws (w\<lparr>docs := ds\<rparr>) = next_call_throws w"
  by (cases "faults w") (simp_all add: next_call_throws_def store_call_def)

lemma store_call_docs [simp]:
  "snd (store_call (w\<lparr>docs := ds\<rparr>)) = (snd (store_call w))\<lparr>docs := ds\<rparr>"
  by (cases "faults w") (simp_all add: store_call_def)

lemma fst_store_call_docs [simp]: "fst (store_call (w\<lparr>docs := ds\<rparr>)) = fst (store_call w)"
  by (cases "faults w") (simp_all add: store_call_def)

lemma calls_answer_less: "calls_answer n w \<Longrightarrow> m \<le> n \<Longrightarrow> calls_answer m w"
  using set_take_subset_set_take [of m n "faults w"]
  by (auto simp: calls_answer_def list_all_iff)

lemma calls_answer_after_call: "calls_answer (Suc n) w \<Longrightarrow> calls_answer n (snd (store_call w))"
  by (simp add: calls_answer_Suc)

lemma deleteMany_ok:
  "\<not> next_call_throws w \<Longrightarrow> deleteMany w = (Inr (), (snd (store_call w))\<lparr>docs := []\<rparr>)"
  by (cases "store_call w") (auto simp: deleteMany_def next_call_throws_def)

lemma insertMany_ok:
  "apply_schema_all data = Some ts \<Longrightarrow> ts \<noteq> [] \<Longrightarrow> \<not> next_call_throws w \<Longrightarrow>
   insertMany data w = (Inr ts, (snd (store_call w))\<lparr>docs := docs w @ ts\<rparr>)"
  by (cases "store_call w")
    (use docs_store_call [of w] in \<open>auto simp: insertMany_def next_call_throws_def\<close>)

lemma insertMany_nothing:
  "apply_schema_all data = Some [] \<Longrightarrow> insertMany data w = (Inr [], w)"
  by (simp add: insertMany_def)

lemma insertMany_invalid:
  "apply_schema_all data = None \<Longrightarrow> insertMany data w = (Inl ValidationError, w)"
  by (simp add: insertMany_def)

lemma insertMany_throws:
  "apply_schema_all data = Some ts \<Longrightarrow> ts \<noteq> [] \<Longrightarrow> fst (store_call w) = Throws k \<Longrightarrow>
   insertMany data w = (Inl StoreError, (snd (store_call w))\<lparr>docs := docs w @ take k ts\<rparr>)"
  using docs_store_call [of w]
  by (cases "store_call w") (simp add: insertMany_def)

text \<open>The schema accepts the well formed objects, and stores each as it was fetched.\<close>

lemma apply_schema_well_formed:
  "well_formed x \<Longrightarrow> \<exists>t. apply_schema x = Some t \<and> stored_as x t"
  by (auto simp: well_formed_def apply_schema_def stored_as_def split: option.splits)

lemma apply_schema_ill_formed: "\<not> well_formed x \<Longrightarrow> apply_schema x = None"
  by (auto simp: well_formed_def apply_schema_def split: option.splits)

lemma apply_schema_all_well_formed:
  "list_all well_formed data \<Longrightarrow>
   \<exists>ts. apply_schema_all data = Some ts \<and> list_all2 stored_as data ts"
proof (induction data)
  case Nil
  then show ?case by simp
next
  case (Cons x data)
  then obtain t ts where "apply_schema x = Some t" "stored_as x t"
    "apply_schema_all data = Some ts" "list_all2 stored_as data ts"
    using apply_schema_well_formed [of x] by auto
  then show ?case by simp
qed

lemma apply_schema_all_ill_formed:
  "\<not> list_all well_formed data \<Longrightarrow> apply_schema_all data = None"
  by (induction data) (auto simp: apply_schema_ill_formed split: option.splits)

lemma stored_as_unique: "stored_as x t \<Longrightarrow> stored_as x t' \<Longrightarrow> t = t'"
  by (cases t, cases t') (auto simp: stored_as_def)

lemma seed_once:
  assumes "apply_schema_all data = Some ts" and "calls_answer 2 w"
  shows "fst (initializeDB (Inr data) (Some Res) w)
           = Inr (200, Initialized ''Database initialized successfully!'' (length ts))"
    and "docs (snd (initializeDB (Inr data) (Some Res) w)) = ts"
    and "calls_answer n (snd (store_call (snd (store_call w)))) \<Longrightarrow>
         calls_answer n (snd (initializeDB (Inr data) (Some Res) w))"
proof -
  from assms(2) have 1: "\<not> next_call_throws w"
    and 2: "\<not> next_call_throws (snd (store_call w))"
    using calls_answer_Suc [of 1 w] calls_answer_Suc [of 0 "snd (store_call w)"]
    by (simp_all add: numeral_2_eq_2)
  have w: "snd (initializeDB (Inr data) (Some Res) w)
      = (if ts = [] then (snd (store_call w))\<lparr>docs := []\<rparr>
         else (snd (store_call (snd (store_call w))))\<lparr>docs := ts\<rparr>)"
    using 1 2 assms(1)
    by (simp add: initializeDB_def deleteMany_ok insertMany_ok insertMany_nothing
        catch_500_def send_def)
  show "fst (initializeDB (Inr data) (Some Res) w)
           = Inr (200, Initialized ''Database initialized successfully!'' (length ts))"
    using 1 2 assms(1)
    by (cases "ts = []")
      (simp_all add: initializeDB_def deleteMany_ok insertMany_ok insertMany_nothing
        catch_500_def send_def)
  show "docs (snd (initializeDB (Inr data) (Some Res) w)) = ts"
    by (simp add: w)
  show "calls_answer n (snd (initializeDB (Inr data) (Some Res) w))"
    if "calls_answer n (snd (store_call (snd (store_call w))))"
  proof (cases "ts = []")
    case True
    have "calls_answer (Suc n) (snd (store_call w))"
      using that 2 by (cases "faults (snd (store_call w))")
        (simp_all add: calls_answer_def next_call_throws_def store_call_def)
    then have "calls_answer n (snd (store_call w))"
      by (rule calls_answer_less) simp
    with True show ?thesis by (simp add: w)
  next
    case False
    with that show ?thesis by (simp add: w)
  qed
qed

text \<open>
  C8. When every fetched object is well formed and the store answers, \<open>initializeDB\<close>
  responds with status 200 and the number of fetched objects, and afterwards the
  collection holds the fetched objects, one record for each, in their order and field by
  field, whatever it held before; in particular after a seed that follows another seed
  it holds the objects of the second fetch only.
\<close>

theorem seeding_replaces_the_store:
  assumes "list_all well_formed old" and "list_all well_formed data"
    and "calls_answer 4 w"
  shows "fst (initializeDB (Inr data) (Some Res) w)
           = Inr (200, Initialized ''Database initialized successfully!'' (length data))
       \<and> list_all2 stored_as data (docs (snd (initializeDB (Inr data) (Some Res) w)))
       \<and> list_all2 stored_as data
            (docs (snd (initializeDB (Inr data) (Some Res)
                          (snd (initializeDB (Inr old) (Some Res) w)))))"
proof -
  obtain ts0 where old: "apply_schema_all old = Some ts0"
    using apply_schema_all_well_formed [OF assms(1)] by blast
  obtain ts where new: "apply_schema_all data = Some ts" and rel: "list_all2 stored_as data ts"
    using apply_schema_all_well_formed [OF assms(2)] by blast
  from assms(3) have two: "calls_answer 2 w"
    by (rule calls_answer_less) simp
  have "calls_answer (Suc (Suc (Suc (Suc 0)))) w"
    using assms(3) by (simp add: eval_nat_numeral)
  then have "calls_answer (Suc (Suc 0)) (snd (store_call (snd (store_call w))))"
    by (intro calls_answer_after_call)
  then have "calls_answer 2 (snd (store_call (snd (store_call w))))"
    by (simp add: eval_nat_numeral)
  then have later: "calls_answer 2 (snd (initializeDB (Inr old) (Some Res) w))"
    by (rule seed_once(3) [OF old two])
  have len: "length ts = length data"
    using rel by (simp add: list_all2_lengthD)
  show ?thesis
    using seed_once(1,2) [OF new two] seed_once(2) [OF new later] rel len by simp
qed

theorem seeding_replaces_the_store_witness:
  "fst (initializeDB (Inr second_data) (Some Res) (store_of example_docs))
     = Inr (200, Initialized ''Database initialized successfully!'' 2)
   \<and> docs (snd (initializeDB (Inr second_data) (Some Res) (store_of example_docs)))
     = [\<lparr>title = ''D'', description = Some ''a desk'', price = 199 / 2,
         category = Some ''Office'', dateOfSale = Date 2023 1 15, sold = True\<rparr>,
        \<lparr>title = ''E'', description = None, price = 7, category = None,
         dateOfSale = Date 2023 2 20, sold = False\<rparr>]
   \<and> docs (snd (initializeDB (Inr second_data) (Some Res)
                  (snd (initializeDB (Inr example_data) (Some Res) (store_of example_docs)))))
     = [\<lparr>title = ''D'', description = Some ''a desk'', price = 199 / 2,
         category = Some ''Office'', dateOfSale = Date 2023 1 15, sold = True\<rparr>,
        \<lparr>title = ''E'', description = None, price = 7, category = None,
         dateOfSale = Date 2023 2 20, sold = False\<rparr>]"
proof -
  let ?stored = "[\<lparr>title = ''D'', description = Some ''a desk'', price = 199 / 2,
         category = Some ''Office'', dateOfSale = Date 2023 1 15, sold = True\<rparr>,
        \<lparr>title = ''E'', description = None, price = 7, category = None,
         dateOfSale = Date 2023 2 20, sold = False\<rparr>]"
  have o: "list_all well_formed example_data"
    by (simp add: example_data_def well_formed_def)
  have d: "list_all well_formed second_data"
    by (simp add: second_data_def well_formed_def)
  have n: "length second_data = 2" by (simp add: second_data_def)
  have s: "list_all2 stored_as second_data ?stored"
    by (simp add: second_data_def stored_as_def)
  have u: "ds = ?stored" if "list_all2 stored_as second_data ds" for ds
    using that s
    by (auto simp: second_data_def list_all2_Cons1 dest: stored_as_unique)
  from seeding_replaces_the_store [OF o d store_of_answers, of example_docs]
  have r: "fst (initializeDB (Inr second_data) (Some Res) (store_of example_docs))
      = Inr (200, Initialized ''Database initialized successfully!'' (length second_data))"
    and a: "list_all2 stored_as second_data
              (docs (snd (initializeDB (Inr second_data) (Some Res) (store_of example_docs))))"
    and b: "list_all2 stored_as second_data
              (docs (snd (initializeDB (Inr second_data) (Some Res)
                 (snd (initializeDB (Inr example_data) (Some Res) (store_of example_docs))))))"
    by blast+
  from r u [OF a] u [OF b] show ?thesis
    by (simp only: n)
qed

text \<open>
  C9 as stated fails: the deletion answers, the insertion of two well formed objects
  throws after the store has written the first, and the store is left with that one
  record, not empty.
\<close>

theorem failed_seed_counterexample:
  "fst (initializeDB (Inr second_data) (Some Res) failing_store)
     = Inr (500, Failure ''Failed to initialize database'' StoreError)
   \<and> docs (snd (initializeDB (Inr second_data) (Some Res) failing_store))
     = [\<lparr>title = ''D'', description = Some ''a desk'', price = 199 / 2,
         category = Some ''Office'', dateOfSale = Date 2023 1 15, sold = True\<rparr>]"
  by (simp add: initializeDB_def deleteMany_def insertMany_def store_call_def failing_store_def
      second_data_def apply_schema_def catch_500_def send_def)

text \<open>
  C9, as amended. When the deletion answers and the insertion fails, \<open>initializeDB\<close>
  responds with status 500 and nothing of the prior content is restored. The collection
  is empty when a fetched object is not well formed (the insertion then throws before it
  calls the store) and when the store throws before it has written a document; when the
  store throws after it has written \<open>k\<close> documents, the collection holds the first \<open>k\<close>
  fetched objects and nothing else. When the fetch fails, the response has status 500 and
  the world is unchanged.
\<close>

theorem failed_seed_is_not_restored:
  assumes "\<not> next_call_throws w"
    and "\<not> list_all well_formed data
         \<or> (data \<noteq> [] \<and> fst (store_call (snd (store_call w))) = Throws k)"
  shows "(\<exists>e. fst (initializeDB (Inr data) (Some Res) w)
                = Inr (500, Failure ''Failed to initialize database'' e))
       \<and> list_all2 stored_as (take (if list_all well_formed data then k else 0) data)
            (docs (snd (initializeDB (Inr data) (Some Res) w)))
       \<and> (docs (snd (initializeDB (Inr data) (Some Res) w)) = []
            \<or> (list_all well_formed data \<and> 0 < k))
       \<and> initializeDB (Inl e') (Some Res) w
           = (Inr (500, Failure ''Failed to initialize database'' e'), w)"
proof -
  have fetch: "initializeDB (Inl e') (Some Res) w
      = (Inr (500, Failure ''Failed to initialize database'' e'), w)"
    by (simp add: initializeDB_def catch_500_def send_def)
  show ?thesis
  proof (cases "list_all well_formed data")
    case False
    then have "apply_schema_all data = None"
      by (rule apply_schema_all_ill_formed)
    then show ?thesis
      using assms(1) fetch False
      by (simp add: initializeDB_def deleteMany_ok insertMany_invalid catch_500_def send_def)
  next
    case True
    then obtain ts where ts: "apply_schema_all data = Some ts"
      and rel: "list_all2 stored_as data ts"
      using apply_schema_all_well_formed by blast
    from True assms(2) have ne: "data \<noteq> []"
      and th: "fst (store_call (snd (store_call w))) = Throws k"
      by simp_all
    from rel ne have ts_ne: "ts \<noteq> []" by auto
    have "initializeDB (Inr data) (Some Res) w
        = (Inr (500, Failure ''Failed to initialize database'' StoreError),
           (snd (store_call (snd (store_call w))))\<lparr>docs := take k ts\<rparr>)"
      using assms(1) th
      by (simp add: initializeDB_def deleteMany_ok insertMany_throws [OF ts ts_ne]
          catch_500_def send_def)
    moreover have "list_all2 stored_as (take k data) (take k ts)"
      using rel by (rule list_all2_takeI)
    ultimately show ?thesis
      using True fetch by (cases k) simp_all
  qed
qed

theorem failed_seed_is_not_restored_witness:
  "fst (initializeDB (Inr untitled_data) (Some Res) (store_of example_docs))
     = Inr (500, Failure ''Failed to initialize database'' ValidationError)
   \<and> docs (snd (initializeDB (Inr untitled_data) (Some Res) (store_of example_docs))) = []
   \<and> (\<exists>e. fst (initializeDB (Inr second_data) (Some Res) refusing_store)
          = Inr (500, Failure ''Failed to initialize database'' e))
   \<and> docs (snd (initializeDB (Inr second_data) (Some Res) refusing_store)) = []
   \<and> initializeDB (Inl FetchError) (Some Res) (store_of example_docs)
     = (Inr (500, Failure ''Failed to initialize database'' FetchError), store_of example_docs)"
proof -
  have ill: "\<not> list_all well_formed untitled_data"
    by (simp add: untitled_data_def well_formed_def)
  then have d: "apply_schema_all untitled_data = None"
    by (rule apply_schema_all_ill_formed)
  then have e: "fst (initializeDB (Inr untitled_data) (Some Res) (store_of example_docs))
      = Inr (500, Failure ''Failed to initialize database'' ValidationError)"
    using store_of_quiet [of example_docs]
    by (simp add: initializeDB_def deleteMany_ok insertMany_invalid catch_500_def send_def)
  from ill have h: "\<not> list_all well_formed untitled_data
      \<or> (untitled_data \<noteq> []
          \<and> fst (store_call (snd (store_call (store_of example_docs)))) = Throws 0)"
    by simp
  have q: "\<not> next_call_throws refusing_store"
    by (simp add: next_call_throws_def store_call_def refusing_store_def)
  have wf: "list_all well_formed second_data"
    by (simp add: second_data_def well_formed_def)
  have t: "\<not> list_all well_formed second_data
      \<or> (second_data \<noteq> [] \<and> fst (store_call (snd (store_call refusing_store))) = Throws 0)"
    by (simp add: second_data_def store_call_def refusing_store_def)
  from failed_seed_is_not_restored [OF store_of_quiet h, of FetchError]
    failed_seed_is_not_restored [OF q t, of FetchError] e ill wf
  show ?thesis by simp
qed

subsection \<open>The list view\<close>

lemma or_holds_searchQuery:
  "or_holds (Some (searchQuery js re s)) t = matches_search re (ToNumber js s) t"
  by (cases "ToNumber js s") (simp_all add: searchQuery_def Boolean_def matches_search_def)

lemma match_item_add_month:
  "match_item (Some (Num x)) (Some (searchQuery js re s)) (add_month (Doc t None))
     = (of_nat (dollar_month (dateOfSale t)) = x \<and> matches_search re (ToNumber js s) t)"
  using or_holds_searchQuery [of js re s t] by (auto simp del: or_holds.simps)

lemma run_match:
  "filter (match_item (Some (Num x)) (Some (searchQuery js re s)))
      (map add_month (map (\<lambda>t. Doc t None) ts))
    = map (\<lambda>t. Doc t (Some (dollar_month (dateOfSale t)))) (selected x re (ToNumber js s) ts)"
  by (induction ts) (simp_all add: selected_def match_item_add_month del: match_item.simps add_month.simps, simp_all)

lemma searchQuery_not_empty: "searchQuery js re s \<noteq> []"
  by (simp add: searchQuery_def Boolean_def)

lemma run_Match_searchQuery:
  "run_stage (Match (Some (Num x)) (Some (searchQuery js re s))) xs
     = Inr (filter (match_item (Some (Num x)) (Some (searchQuery js re s))) xs)"
  using searchQuery_not_empty [of js re s] by (cases "searchQuery js re s") simp_all

lemma project_list_fields:
  "map (project [''title'', ''description'', ''price'', ''sold'', ''dateOfSale'', ''category''])
     (map (\<lambda>t. Doc t (f t)) ts) = map (\<lambda>t. Doc t None) ts"
  by (induction ts) simp_all

lemma run_list_pipeline:
  assumes "plus_month js (month q) = Num x" and "skip_of js q = Some k" and "0 \<le> k"
    and "0 < limit_of js q"
  shows "run_pipeline (list_pipeline js q re) (map (\<lambda>t. Doc t None) ts)
     = Inr (map (\<lambda>t. Doc t None)
             (take (nat (limit_of js q))
                (drop (nat k) (selected x re (ToNumber js (or_default (search q) [])) ts))))"
  using assms
  by (simp add: list_pipeline_def run_Match_searchQuery run_match project_list_fields
      del: run_stage.simps(2,3) map_map flip: drop_map take_map)

lemma run_count_pipeline:
  assumes "plus_month js (month q) = Num x" and "skip_of js q = Some k" and "0 \<le> k"
  shows "\<exists>ys. run_pipeline (slice_0_minus2 (list_pipeline js q re) @ [Count])
                (map (\<lambda>t. Doc t None) ts) = Inr ys
            \<and> first_totalRecords ys
                = length (selected x re (ToNumber js (or_default (search q) [])) ts) - nat k"
  using assms
  by (simp add: list_pipeline_def slice_0_minus2_def run_Match_searchQuery run_match
      first_totalRecords_def del: run_stage.simps(2,3) map_map flip: drop_map)

lemma listTransactions_ok:
  assumes "\<not> month_rejected js (month q)" and "plus_month js (month q) = Num x"
    and "RegExp_i js (or_default (search q) []) = Some re"
    and "skip_of js q = Some k" and "0 \<le> k" and "0 < limit_of js q"
    and "calls_answer 2 w"
  shows "fst (listTransactions js q (Some Res) w)
     = Inr (200,
        Listing
          (take (nat (limit_of js q))
             (drop (nat k) (selected x re (ToNumber js (or_default (search q) [])) (docs w))))
          \<lparr>totalRecords =
             length (selected x re (ToNumber js (or_default (search q) [])) (docs w)) - nat k,
           currentPage = parseInt10 js (or_default (page q) ''1''),
           perPage = limit_of js q,
           totalPages =
             Math_ceil_div
               (length (selected x re (ToNumber js (or_default (search q) [])) (docs w)) - nat k)
               (limit_of js q)\<rparr>)"
proof -
  from assms(7) have 1: "\<not> next_call_throws w"
    and 2: "\<not> next_call_throws (snd (store_call w))"
    using calls_answer_Suc [of 1 w] calls_answer_Suc [of 0 "snd (store_call w)"]
    by (simp_all add: numeral_2_eq_2)
  obtain ys where ys: "run_pipeline (slice_0_minus2 (list_pipeline js q re) @ [Count])
                (map (\<lambda>t. Doc t None) (docs w)) = Inr ys"
    and n: "first_totalRecords ys
                = length (selected x re (ToNumber js (or_default (search q) [])) (docs w)) - nat k"
    using run_count_pipeline [OF assms(2,4,5)] by blast
  show ?thesis
    using assms(1,3)
    by (simp add: listTransactions_def Let_def aggregate_ok [OF 1] aggregate_ok [OF 2]
        run_list_pipeline [OF assms(2,4,5,6)] docs_store_call ys n documents_map_Doc
        catch_500_def send_def)
qed


subsection \<open>The bar chart\<close>

lemma getBarChart_ok:
  assumes "\<not> month_rejected js (month q)" and "plus_month js (month q) = Num x"
    and "\<not> next_call_throws w"
  shows "fst (getBarChart js q (Some Res) w)
     = Inr (200, RangeCounts (rangeCounts (in_month x (docs w))))"
  using assms
  by (simp add: getBarChart_def aggregate_ok run_month_pipeline documents_map_Doc
      catch_500_def send_def)

lemma month_3_accepted:
  "month q = Some ''3'' \<Longrightarrow>
   \<not> month_rejected js0 (month q) \<and> plus_month js0 (month q) = Num 3"
  by (simp add: month_rejected_def plus_month_def js0_def StringToNumber_3)

text \<open>
  No price is in two buckets, and a price that is an integer and not negative is in
  exactly one; so for such prices the bucket counts sum to the number of sold records.
\<close>

lemma buckets_of_integer_price:
  assumes "price t = of_int n" and "0 \<le> n"
  shows "(\<Sum>rg\<leftarrow>ranges. if in_range rg t then 1 else 0) = (if sold t then 1 else (0::nat))"
  using assms by (simp add: ranges_def in_range_def)

lemma buckets_disjoint:
  "(\<Sum>rg\<leftarrow>ranges. if in_range rg t then 1 else 0) \<le> (1::nat)"
  by (simp add: ranges_def in_range_def)

lemma sum_rangeCounts:
  "sum_list (map snd (rangeCounts ts))
     = (\<Sum>t\<leftarrow>ts. \<Sum>rg\<leftarrow>ranges. if in_range rg t then 1 else 0)"
  by (induction ts) (simp_all add: rangeCounts_def ranges_def)

lemma rangeCounts_integer_prices:
  assumes "list_all (\<lambda>t. \<exists>n\<ge>0. price t = of_int n) ts"
  shows "sum_list (map snd (rangeCounts ts)) = length (filter sold ts)"
proof -
  have "(\<Sum>t\<leftarrow>ts. \<Sum>rg\<leftarrow>ranges. if in_range rg t then 1 else 0) = length (filter sold ts)"
    using assms
  proof (induction ts)
    case Nil
    then show ?case by simp
  next
    case (Cons t ts)
    then obtain n where "0 \<le> n" "price t = of_int n" by auto
    then show ?case
      using Cons buckets_of_integer_price [of t n] by simp
  qed
  then show ?thesis by (simp add: sum_rangeCounts)
qed

text \<open>
  C2. One sold record of March with the price 100.5: every bucket count is 0, so the
  counts do not sum to the number of sold records of the month, and the price, which lies
  in \<open>[0, \<infinity>)\<close>, is in no bucket.
\<close>

theorem getBarChart_misses_a_price_between_buckets:
  "fst (getBarChart js0 (for_month ''3'') (Some Res) (store_of gap_docs))
     = Inr (200, RangeCounts
         [(''0-100'', 0), (''101-200'', 0), (''201-300'', 0), (''301-400'', 0),
          (''401-500'', 0), (''501-600'', 0), (''601-700'', 0), (''701-800'', 0),
          (''801-900'', 0), (''901-above'', 0)])
   \<and> map price (filter sold (in_month 3 gap_docs)) = [201 / 2]"
proof -
  have m: "month (for_month ''3'') = Some ''3''" by (simp add: for_month_def)
  have d: "in_month 3 (docs (store_of gap_docs)) = gap_docs"
    by (simp add: in_month_def store_of_def gap_docs_def)
  have c: "rangeCounts gap_docs
     = [(''0-100'', 0), (''101-200'', 0), (''201-300'', 0), (''301-400'', 0),
          (''401-500'', 0), (''501-600'', 0), (''601-700'', 0), (''701-800'', 0),
          (''801-900'', 0), (''901-above'', 0)]"
    by (simp add: rangeCounts_def ranges_def in_range_def gap_docs_def)
  have s: "map price (filter sold (in_month 3 gap_docs)) = [201 / 2]"
    by (simp add: in_month_def gap_docs_def)
  from month_3_accepted [OF m] show ?thesis
    by (simp add: getBarChart_ok [where x = 3] store_of_quiet d c s)
qed

subsection \<open>Paging\<close>

lemma parseInt_10_2: "parseInt_10 ''2'' = Some 2"
  by (simp add: parseInt_10_def is_space_def strip_sign_def is_digit_def decimal_def digit_of_def)

lemma StringToNumber_empty: "StringToNumber [] = Num 0"
  by (simp add: StringToNumber_defs)

lemma RegExp_simple_empty: "RegExp_simple [] = Some (matches_somewhere [])"
  by (simp add: RegExp_simple_def)

lemma matches_somewhere_empty: "matches_somewhere [] s"
  by (cases s) simp_all

text \<open>
  The windows that consecutive pages of \<open>p\<close> records cut out of a list make up the list
  from its start.
\<close>

lemma pages_concat:
  "concat (map (\<lambda>i. take p (drop (i * p) xs)) [0..<n]) = take (n * p) xs"
proof (induction n)
  case 0
  then show ?case by simp
next
  case (Suc n)
  have "take (n * p + p) xs = take (n * p) xs @ take p (drop (n * p) xs)"
    by (rule take_add)
  moreover have "Suc n * p = n * p + p" by simp
  ultimately show ?case using Suc by (simp del: mult_Suc)
qed

text \<open>
  C4. Three records match; the second page of two holds the third record, and the
  response reports \<open>totalRecords = 1\<close> and \<open>totalPages = 1\<close>: the count pipeline keeps
  \<^verbatim>\<open>$skip\<close>, so it counts the matching records after the skipped ones.
\<close>

theorem listTransactions_counts_after_skip:
  "fst (listTransactions js0 second_page_of_two (Some Res) (store_of three_docs))
     = Inr (200,
         Listing
           [\<lparr>title = ''Z'', description = None, price = 30, category = None,
             dateOfSale = Date 2024 3 3, sold = True\<rparr>]
           \<lparr>totalRecords = 1, currentPage = Some 2, perPage = 2, totalPages = 1\<rparr>)
   \<and> length (in_month 3 three_docs) = 3"
proof -
  let ?q = second_page_of_two
  have m: "month ?q = Some ''3''" by (simp add: second_page_of_two_def)
  have l: "limit_of js0 ?q = 2"
    by (simp add: limit_of_def second_page_of_two_def or_default_def js0_def parseInt_10_2)
  have p: "parseInt10 js0 (or_default (page ?q) ''1'') = Some 2"
    by (simp add: second_page_of_two_def or_default_def js0_def parseInt_10_2)
  have k: "skip_of js0 ?q = Some 2"
    using p l by (simp add: skip_of_def)
  have r: "RegExp_i js0 (or_default (search ?q) []) = Some (matches_somewhere [])"
    by (simp add: second_page_of_two_def or_default_def js0_def RegExp_simple_empty)
  have n: "ToNumber js0 (or_default (search ?q) []) = Num 0"
    by (simp add: second_page_of_two_def or_default_def js0_def StringToNumber_empty)
  have sel: "selected 3 (matches_somewhere []) (Num 0) (docs (store_of three_docs)) = three_docs"
    by (simp add: selected_def matches_search_def matches_somewhere_empty store_of_def
        three_docs_def)
  have c: "Math_ceil_div (Suc 0) 2 = 1"
    unfolding Math_ceil_div_def by (rule ceiling_unique) simp_all
  have len: "length (in_month 3 three_docs) = 3"
    by (simp add: in_month_def three_docs_def)
  have "fst (listTransactions js0 ?q (Some Res) (store_of three_docs))
     = Inr (200,
        Listing (take 2 (drop 2 three_docs))
          \<lparr>totalRecords = length three_docs - 2, currentPage = Some 2, perPage = 2,
           totalPages = Math_ceil_div (length three_docs - 2) 2\<rparr>)"
    using month_3_accepted [OF m]
      listTransactions_ok [where js = js0 and q = ?q and x = 3 and k = 2
        and re = "matches_somewhere []" and w = "store_of three_docs"]
    by (simp add: l p k r n sel store_of_answers)
  moreover have "take 2 (drop 2 three_docs)
      = [\<lparr>title = ''Z'', description = None, price = 30, category = None,
             dateOfSale = Date 2024 3 3, sold = True\<rparr>]"
    and "length three_docs - 2 = 1"
    by (simp_all add: three_docs_def)
  ultimately show ?thesis
    by (simp add: c len)
qed

subsection \<open>A month that is not a number\<close>

text \<open>
  Text that converts to NaN passes the month check, since both comparisons are false; the
  \<^verbatim>\<open>$match\<close> on NaN then selects no record. The four single views answer with status
  200 and empty results.
\<close>

lemma month_unparsable:
  "month q = Some m \<Longrightarrow> m \<noteq> [] \<Longrightarrow> ToNumber js m = NaN \<Longrightarrow>
   \<not> month_rejected js (month q) \<and> plus_month js (month q) = NaN"
  by (simp add: month_rejected_def plus_month_def)

lemma run_month_pipeline_NaN:
  "run_pipeline (month_pipeline NaN fs) (map (\<lambda>t. Doc t None) ts) = Inr []"
  by (induction ts) (simp_all add: month_pipeline_def)

lemma rangeCounts_empty: "rangeCounts [] = map (\<lambda>rg. (label rg, 0)) ranges"
  by (simp add: rangeCounts_def)

lemma unparsable_month_statistics:
  assumes "month q = Some m" and "m \<noteq> []" and "ToNumber js m = NaN"
    and "\<not> next_call_throws w"
  shows "getStatistics js q (Some Res) w
     = (Inr (200, Statistics (Num 0) 0 0), snd (store_call w))"
  using month_unparsable [OF assms(1,2,3)] assms(4)
  by (simp add: getStatistics_def aggregate_ok run_month_pipeline_NaN catch_500_def send_def)

lemma unparsable_month_bar_chart:
  assumes "month q = Some m" and "m \<noteq> []" and "ToNumber js m = NaN"
    and "\<not> next_call_throws w"
  shows "getBarChart js q (Some Res) w
     = (Inr (200, RangeCounts (map (\<lambda>rg. (label rg, 0)) ranges)), snd (store_call w))"
  using month_unparsable [OF assms(1,2,3)] assms(4)
  by (simp add: getBarChart_def aggregate_ok run_month_pipeline_NaN catch_500_def send_def
      rangeCounts_empty)

lemma unparsable_month_pie_chart:
  assumes "month q = Some m" and "m \<noteq> []" and "ToNumber js m = NaN"
    and "\<not> next_call_throws w"
  shows "getPieChart js q (Some Res) w = (Inr (200, CategoryCounts []), snd (store_call w))"
  using month_unparsable [OF assms(1,2,3)] assms(4)
  by (simp add: getPieChart_def aggregate_ok run_month_pipeline_NaN catch_500_def send_def
      categoryCounts_def Object_entries_def)

lemma match_item_NaN: "\<not> match_item (Some NaN) cs (add_month (Doc t None))"
  by simp

lemma run_match_NaN:
  "filter (match_item (Some NaN) cs) (map add_month (map (\<lambda>t. Doc t None) ts)) = []"
  by (induction ts) simp_all

lemma unparsable_month_list:
  assumes "month q = Some m" and "m \<noteq> []" and "ToNumber js m = NaN"
    and "RegExp_i js (or_default (search q) []) = Some re"
    and "skip_of js q = Some k" and "0 \<le> k" and "0 < limit_of js q"
    and "calls_answer 2 w"
  shows "fst (listTransactions js q (Some Res) w)
     = Inr (200, Listing []
          \<lparr>totalRecords = 0, currentPage = parseInt10 js (or_default (page q) ''1''),
           perPage = limit_of js q, totalPages = 0\<rparr>)"
proof -
  from assms(8) have 1: "\<not> next_call_throws w"
    and 2: "\<not> next_call_throws (snd (store_call w))"
    using calls_answer_Suc [of 1 w] calls_answer_Suc [of 0 "snd (store_call w)"]
    by (simp_all add: numeral_2_eq_2)
  let ?cs = "searchQuery js re (or_default (search q) [])"
  have m: "run_stage (Match (Some NaN) (Some ?cs)) xs
      = Inr (filter (match_item (Some NaN) (Some ?cs)) xs)" for xs
    using searchQuery_not_empty [of js re "or_default (search q) []"] by (cases ?cs) simp_all
  have a: "run_pipeline (list_pipeline js q re) (map (\<lambda>t. Doc t None) (docs w)) = Inr []"
    using month_unparsable [OF assms(1,2,3)] assms(5,6,7)
    by (simp add: list_pipeline_def m run_match_NaN del: run_stage.simps(2,3) map_map)
  have b: "run_pipeline (slice_0_minus2 (list_pipeline js q re) @ [Count])
             (map (\<lambda>t. Doc t None) (docs w)) = Inr []"
    using month_unparsable [OF assms(1,2,3)] assms(5,6)
    by (simp add: list_pipeline_def slice_0_minus2_def m run_match_NaN
        del: run_stage.simps(2,3) map_map)
  show ?thesis
    using month_unparsable [OF assms(1,2,3)] assms(4)
    by (simp add: listTransactions_def Let_def aggregate_ok [OF 1] aggregate_ok [OF 2]
        docs_store_call a b first_totalRecords_def Math_ceil_div_def catch_500_def send_def)
qed

text \<open>
  C10. For the month \<^verbatim>\<open>abc\<close> the combined view passes the check too, but it responds
  with status 500, where the statistics and pie chart views respond with status 200 and
  empty results.
\<close>

theorem getCombinedData_unparsable_month_fails:
  "fst (getCombinedData js0 (for_month ''abc'') (Some Res) (store_of example_docs))
     = Inr (500, Failure ''Failed to fetch combined data'' TypeError)
   \<and> fst (getStatistics js0 (for_month ''abc'') (Some Res) (store_of example_docs))
     = Inr (200, Statistics (Num 0) 0 0)
   \<and> fst (getPieChart js0 (for_month ''abc'') (Some Res) (store_of example_docs))
     = Inr (200, CategoryCounts [])"
proof -
  have m: "month (for_month ''abc'') = Some ''abc''" by (simp add: for_month_def)
  have n: "ToNumber js0 ''abc'' = NaN" by (simp add: js0_def StringToNumber_abc)
  have "\<not> month_rejected js0 (month (for_month ''abc''))"
    using month_unparsable [OF m _ n] by simp
  then show ?thesis
    using unparsable_month_statistics [OF m _ n store_of_quiet, of example_docs]
      unparsable_month_pie_chart [OF m _ n store_of_quiet, of example_docs]
    by (simp add: getCombinedData_response)
qed

subsection \<open>The pie chart\<close>

lemma first_occurrences_snoc:
  "first_occurrences (xs @ [x])
     = (if x \<in> set xs then first_occurrences xs else first_occurrences xs @ [x])"
  by (simp add: first_occurrences_def)

lemma set_first_occurrences [simp]: "set (first_occurrences xs) = set xs"
  by (simp add: first_occurrences_def)

lemma distinct_first_occurrences [simp]: "distinct (first_occurrences xs)"
  by (simp add: first_occurrences_def)

lemma map_of_keyed: "map_of (map (\<lambda>c. (c, f c)) ks) k = (if k \<in> set ks then Some (f k) else None)"
  by (induction ks) simp_all

lemma set_own_keyed:
  "distinct ks \<Longrightarrow>
   set_own (map (\<lambda>c. (c, f c)) ks) k v
     = (if k \<in> set ks then map (\<lambda>c. (c, if c = k then v else f c)) ks
        else map (\<lambda>c. (c, f c)) ks @ [(k, v)])"
  by (induction ks) auto

lemma proto_is_inherited: "''__proto__'' \<in> set prototype_names"
  by (simp add: prototype_names_def)

lemma count_up_tally:
  assumes "k \<notin> set prototype_names"
  shows "count_up (tally xs) k = tally (xs @ [k])"
proof -
  from assms proto_is_inherited have np: "k \<noteq> ''__proto__''" by blast
  show ?thesis
  proof (cases "k \<in> set xs")
    case True
    then show ?thesis
      using np
      by (simp add: count_up_def plus_one_def tally_def map_of_keyed set_own_keyed
          first_occurrences_snoc)
  next
    case False
    then have z: "count_list xs k = 0" by (simp add: count_list_0_iff)
    have same: "map (\<lambda>c. (c, Number (count_list xs c + (if k = c then 1 else 0))))
                 (first_occurrences xs)
        = map (\<lambda>c. (c, Number (count_list xs c))) (first_occurrences xs)"
      using False by (intro map_cong) auto
    have "count_up (tally xs) k = tally xs @ [(k, Number 1)]"
      using False np assms
      by (simp add: count_up_def plus_one_def tally_def map_of_keyed set_own_keyed)
    also have "\<dots> = tally (xs @ [k])"
      using False z by (auto simp: tally_def first_occurrences_snoc same)
    finally show ?thesis .
  qed
qed

lemma foldl_count_up:
  "list_all (\<lambda>l. l \<notin> set prototype_names) labels \<Longrightarrow> foldl count_up [] labels = tally labels"
proof (induction labels rule: rev_induct)
  case Nil
  then show ?case by (simp add: tally_def first_occurrences_def)
next
  case (snoc l labels)
  then show ?case by (simp add: count_up_tally)
qed

lemma categoryCounts_tally:
  "list_all (\<lambda>l. l \<notin> set prototype_names) (map category_label ts) \<Longrightarrow>
   categoryCounts ts = tally (map category_label ts)"
  using foldl_count_up [of "map category_label ts"]
  by (simp add: categoryCounts_def foldl_map)

lemma insort_key_keyed:
  "insort_key (\<lambda>p. g (fst p)) (c, f c) (map (\<lambda>c. (c, f c)) ks)
     = map (\<lambda>c. (c, f c)) (insort_key g c ks)"
  by (induction ks) simp_all

lemma sort_key_keyed:
  "sort_key (\<lambda>p. g (fst p)) (map (\<lambda>c. (c, f c)) ks) = map (\<lambda>c. (c, f c)) (sort_key g ks)"
  by (induction ks) (simp_all add: insort_key_keyed)

lemma Object_entries_keyed:
  "Object_entries (map (\<lambda>c. (c, f c)) ks) = map (\<lambda>c. (c, f c)) (entries_order ks)"
  by (simp add: Object_entries_def entries_order_def filter_map o_def sort_key_keyed)

lemma set_entries_order [simp]: "set (entries_order ks) = set ks"
  by (auto simp: entries_order_def)

lemma distinct_entries_order: "distinct ks \<Longrightarrow> distinct (entries_order ks)"
  by (auto simp: entries_order_def)

lemma entries_order_no_index:
  "\<not> list_ex is_array_index ks \<Longrightarrow> entries_order ks = ks"
  by (simp add: entries_order_def list_ex_iff)

lemma sum_count_list_distinct:
  assumes "distinct ys" and "set ys = set xs"
  shows "sum_list (map (count_list xs) ys) = length xs"
proof -
  have "sum_list (map (count_list xs) ys) = sum (count_list xs) (set ys)"
    using assms(1) by (rule sum_list_distinct_conv_sum_set)
  also have "\<dots> = length xs"
    using assms(2) by (simp add: sum_count_set)
  finally show ?thesis .
qed


text \<open>
  A label that names an inherited property is not counted: the first increment gives a
  string, and \<^verbatim>\<open>__proto__\<close> is not even stored.
\<close>

lemma inherited_name_is_not_counted:
  "count_up [] ''constructor'' = [(''constructor'', Not_a_number)]
   \<and> count_up [] ''__proto__'' = []"
  by (simp add: count_up_def plus_one_def prototype_names_def)

lemma getPieChart_ok:
  assumes "\<not> month_rejected js (month q)" and "plus_month js (month q) = Num x"
    and "\<not> next_call_throws w"
  shows "fst (getPieChart js q (Some Res) w)
     = Inr (200, CategoryCounts (Object_entries (categoryCounts (in_month x (docs w)))))"
  using assms
  by (simp add: getPieChart_def aggregate_ok run_month_pipeline documents_map_Doc
      catch_500_def send_def)

text \<open>
  C7, as amended. For a month that passes the check and a store that answers,
  \<open>getPieChart\<close> groups all records of the month by label (the category, or
  \<^verbatim>\<open>Uncategorized\<close> when it is missing or empty). When no label names a property
  inherited from \<^verbatim>\<open>Object.prototype\<close>, the response lists each distinct label once with
  the number of records that carry it, and the numbers sum to the number of records of
  the month. The labels come in the order of object keys: array indices first, in
  ascending numeric order, then the other labels in the order of their first occurrence;
  this is the order of first occurrence when no label is an array index.
\<close>

theorem getPieChart_counts:
  assumes "month q = Some m" and "m \<noteq> []" and "ToNumber js m = Num x"
    and "0 < x" and "x \<le> 12" and "\<not> next_call_throws w"
    and "list_all (\<lambda>l. l \<notin> set prototype_names) (month_labels x (docs w))"
  shows "\<exists>cs. fst (getPieChart js q (Some Res) w) = Inr (200, CategoryCounts cs)
       \<and> map fst cs = entries_order (first_occurrences (month_labels x (docs w)))
       \<and> map snd cs = map (\<lambda>c. Number (count_list (month_labels x (docs w)) c)) (map fst cs)
       \<and> sum_list (map (\<lambda>p. number_of (snd p)) cs) = length (in_month x (docs w))
       \<and> (list_ex is_array_index (month_labels x (docs w))
            \<or> map fst cs = first_occurrences (month_labels x (docs w)))"
proof -
  let ?labels = "month_labels x (docs w)"
  let ?cs = "map (\<lambda>c. (c, Number (count_list ?labels c))) (entries_order (first_occurrences ?labels))"
  from assms have ok: "\<not> month_rejected js (month q)" and pm: "plus_month js (month q) = Num x"
    using month_accepted by blast+
  have "categoryCounts (in_month x (docs w)) = tally ?labels"
    using assms(7) categoryCounts_tally [of "in_month x (docs w)"] by (simp add: month_labels_def)
  then have r: "fst (getPieChart js q (Some Res) w) = Inr (200, CategoryCounts ?cs)"
    using getPieChart_ok [OF ok pm assms(6)] by (simp add: tally_def Object_entries_keyed)
  have f: "map fst ?cs = entries_order (first_occurrences ?labels)"
    by (simp add: o_def)
  have s: "map snd ?cs = map (\<lambda>c. Number (count_list ?labels c)) (map fst ?cs)"
    by (simp add: o_def)
  have "sum_list (map (\<lambda>p. number_of (snd p)) ?cs)
      = sum_list (map (count_list ?labels) (entries_order (first_occurrences ?labels)))"
    by (simp add: o_def number_of_def)
  also have "\<dots> = length ?labels"
    by (rule sum_count_list_distinct) (simp_all add: distinct_entries_order)
  finally have n: "sum_list (map (\<lambda>p. number_of (snd p)) ?cs) = length (in_month x (docs w))"
    by (simp add: month_labels_def)
  have o: "list_ex is_array_index ?labels \<or> map fst ?cs = first_occurrences ?labels"
    using entries_order_no_index [of "first_occurrences ?labels"]
    by (auto simp: o_def list_ex_iff)
  from r f s n o show ?thesis by blast
qed

theorem getPieChart_counts_witness:
  "fst (getPieChart js0 (for_month ''3'') (Some Res) (store_of example_docs))
     = Inr (200, CategoryCounts [(''Electronics'', Number 1), (''Uncategorized'', Number 1)])"
proof -
  let ?labels = "month_labels 3 (docs (store_of example_docs))"
  have m: "month (for_month ''3'') = Some ''3''" by (simp add: for_month_def)
  have n: "ToNumber js0 ''3'' = Num 3" by (simp add: js0_def StringToNumber_3)
  have l: "?labels = [''Electronics'', ''Uncategorized'']"
    by (simp add: month_labels_def in_month_def store_of_def example_docs_def category_label_def)
  have p: "list_all (\<lambda>l. l \<notin> set prototype_names) ?labels"
    by (simp add: l prototype_names_def)
  have e: "entries_order (first_occurrences [''Electronics'', ''Uncategorized''])
      = [''Electronics'', ''Uncategorized'']"
    by (simp add: first_occurrences_def entries_order_def is_array_index_def is_digit_def)
  have ne: "''3'' \<noteq> []" and lo: "(0::rat) < 3" and hi: "(3::rat) \<le> 12"
    by simp_all
  from getPieChart_counts [OF m ne n lo hi store_of_quiet p]
  obtain cs where 1: "fst (getPieChart js0 (for_month ''3'') (Some Res) (store_of example_docs))
        = Inr (200, CategoryCounts cs)"
    and 2: "map fst cs = entries_order (first_occurrences ?labels)"
    and 3: "map snd cs = map (\<lambda>c. Number (count_list ?labels c)) (map fst cs)"
    by blast
  from 2 3 have "zip (map fst cs) (map snd cs)
      = [(''Electronics'', Number 1), (''Uncategorized'', Number 1)]"
    by (simp add: l e)
  then have "cs = [(''Electronics'', Number 1), (''Uncategorized'', Number 1)]"
    by (simp add: zip_map_fst_snd)
  with 1 show ?thesis by simp
qed

text \<open>
  C7 as stated fails: the categories \<^verbatim>\<open>b\<close> and \<^verbatim>\<open>1\<close> occur in this order, and
  the response lists \<^verbatim>\<open>1\<close> first.
\<close>

theorem getPieChart_order_counterexample:
  "fst (getPieChart js0 (for_month ''3'') (Some Res) (store_of numbered_docs))
     = Inr (200, CategoryCounts [(''1'', Number 1), (''b'', Number 1)])
   \<and> first_occurrences (month_labels 3 numbered_docs) = [''b'', ''1'']"
proof -
  have m: "month (for_month ''3'') = Some ''3''" by (simp add: for_month_def)
  have d: "in_month 3 (docs (store_of numbered_docs)) = numbered_docs"
    by (simp add: in_month_def store_of_def numbered_docs_def)
  have c: "categoryCounts numbered_docs = [(''b'', Number 1), (''1'', Number 1)]"
    by (simp add: categoryCounts_def numbered_docs_def category_label_def count_up_def
        plus_one_def prototype_names_def)
  have i: "is_array_index ''1''" "\<not> is_array_index ''b''"
    by (simp_all add: is_array_index_def is_digit_def decimal_def digit_of_def)
  have o: "Object_entries [(''b'', Number 1), (''1'', Number 1)]
      = [(''1'', Number 1), (''b'', Number 1)]"
    by (simp add: Object_entries_def i)
  have f: "first_occurrences (month_labels 3 numbered_docs) = [''b'', ''1'']"
    by (simp add: first_occurrences_def month_labels_def in_month_def numbered_docs_def
        category_label_def)
  have oc: "Object_entries (categoryCounts numbered_docs)
      = [(''1'', Number 1), (''b'', Number 1)]"
    by (simp only: c o)
  from month_3_accepted [OF m] show ?thesis
    by (simp add: getPieChart_ok [where x = 3] store_of_quiet d oc f)
qed

subsection \<open>Searching\<close>

lemma plain_text_no_dot: "plain_text s \<Longrightarrow> CHR ''.'' \<notin> set s"
  by (auto simp: plain_text_def list_ex_iff syntax_characters_def)

lemma RegExp_simple_plain: "plain_text s \<Longrightarrow> RegExp_simple s = Some (matches_somewhere s)"
  by (auto simp: plain_text_def RegExp_simple_def list_ex_iff)

lemma matches_at_plain:
  "CHR ''.'' \<notin> set ps \<Longrightarrow> matches_at ps cs = (\<exists>after. map lower cs = map lower ps @ after)"
  by (induction ps cs rule: matches_at.induct) (auto simp: atom_matches_def)

lemma matches_somewhere_plain:
  assumes "CHR ''.'' \<notin> set ps"
  shows "matches_somewhere ps cs = contains_ci cs ps"
proof (induction cs)
  case Nil
  then show ?case
    by (cases ps) (simp_all add: contains_ci_def)
next
  case (Cons c cs)
  have "contains_ci (c # cs) ps
      = ((\<exists>after. map lower (c # cs) = map lower ps @ after) \<or> contains_ci cs ps)"
    unfolding contains_ci_def
    by (auto simp: Cons_eq_append_conv) blast+
  then show ?case
    using Cons assms by (simp add: matches_at_plain del: matches_at.simps)
qed


text \<open>
  C5, as amended. For search text \<open>s\<close> without syntax characters, on which the regular
  expression is the plain pattern, the records that \<open>listTransactions\<close> pages are exactly
  the records of the month whose title or description contains \<open>s\<close>, ignoring case, or
  whose price is the number of \<open>s\<close> (a condition that holds of no record when the number
  is NaN). The response carries the window of these records that \<^verbatim>\<open>$skip\<close> and
  \<^verbatim>\<open>$limit\<close> cut out.
\<close>

theorem listTransactions_plain_search:
  assumes "month q = Some m" and "m \<noteq> []" and "ToNumber js m = Num x"
    and "0 < x" and "x \<le> 12"
    and "search q = Some s" and "plain_text s" and "RegExp_i js s = RegExp_simple s"
    and "skip_of js q = Some k" and "0 \<le> k" and "0 < limit_of js q"
    and "calls_answer 2 w"
  shows "\<exists>p. fst (listTransactions js q (Some Res) w)
            = Inr (200,
                Listing
                  (take (nat (limit_of js q))
                     (drop (nat k)
                        (selected x (\<lambda>text. contains_ci text s) (ToNumber js s) (docs w))))
                  p)"
proof -
  from assms have ok: "\<not> month_rejected js (month q)" and pm: "plus_month js (month q) = Num x"
    using month_accepted by blast+
  have s: "or_default (search q) [] = s"
    using assms(6) by (simp add: or_default_def)
  have "matches_somewhere s = (\<lambda>text. contains_ci text s)"
    using matches_somewhere_plain [OF plain_text_no_dot [OF assms(7)]] by blast
  then have re: "RegExp_i js (or_default (search q) []) = Some (\<lambda>text. contains_ci text s)"
    using assms(7,8) by (simp add: s RegExp_simple_plain)
  show ?thesis
    using listTransactions_ok [OF ok pm re assms(9,10,11,12)] by (simp add: s)
qed

lemma parseInt_10_1: "parseInt_10 ''1'' = Some 1"
  by (simp add: parseInt_10_def is_space_def strip_sign_def is_digit_def decimal_def digit_of_def)

lemma parseInt_10_10: "parseInt_10 ''10'' = Some 10"
  by (simp add: parseInt_10_def is_space_def strip_sign_def is_digit_def decimal_def digit_of_def)

lemma first_page_of_ten:
  "page q = None \<Longrightarrow> perPage_param q = None \<Longrightarrow>
   skip_of js0 q = Some 0 \<and> limit_of js0 q = 10
   \<and> parseInt10 js0 (or_default (page q) ''1'') = Some 1"
  by (simp add: skip_of_def limit_of_def or_default_def js0_def parseInt_10_1 parseInt_10_10)

lemma StringToNumber_lamp: "StringToNumber ''lamp'' = NaN"
  by (simp add: StringToNumber_defs)

lemma StringToNumber_dot: "StringToNumber ''.'' = NaN"
  by (simp add: StringToNumber_defs)

lemma contains_ci_iff: "plain_text s \<Longrightarrow> contains_ci text s = matches_somewhere s text"
  by (simp add: matches_somewhere_plain plain_text_no_dot)

lemma plain_lamp: "plain_text ''lamp''"
  by (simp add: plain_text_def syntax_characters_def)

theorem listTransactions_plain_search_witness:
  "\<exists>p. fst (listTransactions js0 lamp_search (Some Res) (store_of lamp_docs))
      = Inr (200, Listing
          [\<lparr>title = ''Desk Lamp'', description = Some ''warm light'', price = 40,
             category = None, dateOfSale = Date 2024 3 7, sold = True\<rparr>,
           \<lparr>title = ''Chair'', description = Some ''goes with a LAMP'', price = 90,
             category = None, dateOfSale = Date 2024 3 8, sold = False\<rparr>] p)"
proof -
  have m: "month lamp_search = Some ''3''" and s: "search lamp_search = Some ''lamp''"
    and pg: "page lamp_search = None" "perPage_param lamp_search = None"
    by (simp_all add: lamp_search_def)
  have ne: "''3'' \<noteq> []" and lo: "(0::rat) < 3" and hi: "(3::rat) \<le> 12" and z: "(0::int) \<le> 0"
    by simp_all
  have n: "ToNumber js0 ''3'' = Num 3" by (simp add: js0_def StringToNumber_3)
  have r: "RegExp_i js0 ''lamp'' = RegExp_simple ''lamp''" by (simp add: js0_def)
  have k: "skip_of js0 lamp_search = Some 0" and l: "limit_of js0 lamp_search = 10"
    using first_page_of_ten [OF pg] by simp_all
  have l': "0 < limit_of js0 lamp_search" by (simp add: l)
  have sel: "selected 3 (\<lambda>text. contains_ci text ''lamp'') (ToNumber js0 ''lamp'')
               (docs (store_of lamp_docs))
      = [\<lparr>title = ''Desk Lamp'', description = Some ''warm light'', price = 40,
             category = None, dateOfSale = Date 2024 3 7, sold = True\<rparr>,
           \<lparr>title = ''Chair'', description = Some ''goes with a LAMP'', price = 90,
             category = None, dateOfSale = Date 2024 3 8, sold = False\<rparr>]"
    by (simp add: selected_def matches_search_def contains_ci_iff [OF plain_lamp] js0_def
        StringToNumber_lamp store_of_def lamp_docs_def atom_matches_def lower_def)
  from listTransactions_plain_search
    [OF m ne n lo hi s plain_lamp r k z l' store_of_answers [of 2 lamp_docs]]
  show ?thesis
    by (simp add: sel l)
qed

lemma RegExp_simple_dot: "RegExp_simple ''.'' = Some (matches_somewhere ''.'')"
  by (simp add: RegExp_simple_def)

lemma no_dot_in_A: "\<not> contains_ci ''A'' ''.''" and no_dot_in_B: "\<not> contains_ci ''B'' ''.''"
  by (auto simp: contains_ci_def lower_def Cons_eq_append_conv)

text \<open>
  C5 as stated fails: the search text \<^verbatim>\<open>.\<close> is a pattern that matches any character,
  so both records of the example are listed, though neither title contains a full stop,
  neither record has a description, and \<^verbatim>\<open>.\<close> is not a number.
\<close>

theorem listTransactions_search_counterexample:
  "fst (listTransactions js0 dot_search (Some Res) (store_of example_docs))
     = Inr (200, Listing example_docs
         \<lparr>totalRecords = 2, currentPage = Some 1, perPage = 10, totalPages = 1\<rparr>)
   \<and> selected 3 (\<lambda>text. contains_ci text ''.'') (StringToNumber ''.'') example_docs = []"
proof -
  let ?q = dot_search
  have m: "month ?q = Some ''3''" and pg: "page ?q = None" "perPage_param ?q = None"
    by (simp_all add: dot_search_def)
  have r: "RegExp_i js0 (or_default (search ?q) []) = Some (matches_somewhere ''.'')"
    by (simp add: dot_search_def or_default_def js0_def RegExp_simple_dot)
  have n: "ToNumber js0 (or_default (search ?q) []) = NaN"
    by (simp add: dot_search_def or_default_def js0_def StringToNumber_dot)
  have sel: "selected 3 (matches_somewhere ''.'') NaN (docs (store_of example_docs))
      = example_docs"
    by (simp add: selected_def matches_search_def store_of_def example_docs_def
        atom_matches_def)
  have c: "Math_ceil_div 2 10 = 1"
    unfolding Math_ceil_div_def by (rule ceiling_unique) simp_all
  have len: "length example_docs = 2" and t: "take 10 example_docs = example_docs"
    by (simp_all add: example_docs_def)
  have none: "selected 3 (\<lambda>text. contains_ci text ''.'') (StringToNumber ''.'') example_docs = []"
    by (simp add: selected_def matches_search_def example_docs_def no_dot_in_A no_dot_in_B
        StringToNumber_dot)
  have "fst (listTransactions js0 ?q (Some Res) (store_of example_docs))
     = Inr (200,
        Listing (take 10 (drop 0 example_docs))
          \<lparr>totalRecords = length example_docs - 0, currentPage = Some 1, perPage = 10,
           totalPages = Math_ceil_div (length example_docs - 0) 10\<rparr>)"
    using month_3_accepted [OF m] first_page_of_ten [OF pg]
      listTransactions_ok [where js = js0 and q = ?q and x = 3 and k = 0
        and re = "matches_somewhere ''.''" and w = "store_of example_docs"]
    by (simp add: r n sel store_of_answers)
  then show ?thesis
    by (simp add: len t c none)
qed

text \<open>Search text that is no regular expression at all is answered with status 500.\<close>

lemma listTransactions_bad_pattern:
  assumes "\<not> month_rejected js (month q)" and "RegExp_i js (or_default (search q) []) = None"
  shows "listTransactions js q (Some Res) w
     = (Inr (500, Failure ''Failed to fetch transactions'' SyntaxError), w)"
  using assms by (simp add: listTransactions_def catch_500_def send_def)

end
